theory Spec2Isabelle
  imports Complex_Main "HOL-Library.Char_ord" "HOL-Library.List_Lexorder"
    "HOL-Library.Product_Lexorder"
begin

section \<open>Values, dictionaries and exceptions\<close>

text \<open>
  The backend (\<^verbatim>\<open>src/backend/main.py\<close>) works on the dictionaries that
  \<^verbatim>\<open>csv.DictReader\<close> yields: string keys, and cells that are strings or
  \<^verbatim>\<open>None\<close>. The loader overwrites six cells with floats and a
  \<^verbatim>\<open>datetime\<close>, so a cell is a value of one of five kinds.

  A \<^verbatim>\<open>datetime\<close> produced by \<^verbatim>\<open>strptime(_, '%Y-%m-%d')\<close> has a zero time of
  day; it is the triple (year, month, day), compared lexicographically as Python does.

  A Python \<^verbatim>\<open>float\<close> is modelled by the exact rational it denotes: rounding to binary64,
  signed zeros, infinities and NaN have no counterpart here.
\<close>

type_synonym datetime = "nat \<times> nat \<times> nat"

datatype pyval = PNone | PStr string | PInt int | PFloat rat | PDate datetime

type_synonym pydict = "string \<rightharpoonup> pyval"

datatype error = KeyError string | ValueError | TypeError | AttributeError | ZeroDivisionError

text \<open>\<^verbatim>\<open>d[k]\<close> raises \<^verbatim>\<open>KeyError\<close> on a missing key; \<^verbatim>\<open>d.get(k, default)\<close> does not.\<close>

definition subscript :: "pydict \<Rightarrow> string \<Rightarrow> error + pyval" where
  "subscript d k = (case d k of None \<Rightarrow> Inl (KeyError k) | Some v \<Rightarrow> Inr v)"

definition dict_get :: "pydict \<Rightarrow> string \<Rightarrow> pyval \<Rightarrow> pyval" where
  "dict_get d k dflt = (case d k of None \<Rightarrow> dflt | Some v \<Rightarrow> v)"

text \<open>Sequencing of computations that may raise: the first exception wins.\<close>

definition bind :: "error + 'a \<Rightarrow> ('a \<Rightarrow> error + 'b) \<Rightarrow> error + 'b" where
  "bind m f = (case m of Inl e \<Rightarrow> Inl e | Inr x \<Rightarrow> f x)"

text \<open>Truthiness (\<^verbatim>\<open>not val\<close>, \<^verbatim>\<open>if start_date:\<close>) and \<^verbatim>\<open>isinstance(val, str)\<close>.\<close>

fun truthy :: "pyval \<Rightarrow> bool" where
  "truthy PNone = False"
| "truthy (PStr s) = (s \<noteq> [])"
| "truthy (PInt i) = (i \<noteq> 0)"
| "truthy (PFloat q) = (q \<noteq> 0)"
| "truthy (PDate d) = True"

fun is_str :: "pyval \<Rightarrow> bool" where
  "is_str (PStr s) = True"
| "is_str v = False"

section \<open>String primitives\<close>

definition is_digit :: "char \<Rightarrow> bool" where
  "is_digit c = (c \<in> set ''0123456789'')"

definition digit_val :: "char \<Rightarrow> nat" where
  "digit_val c = of_char c - 48"

definition nat_of_digits :: "string \<Rightarrow> nat" where
  "nat_of_digits ds = foldl (\<lambda>n c. 10 * n + digit_val c) 0 ds"

text \<open>
  The ASCII characters that \<^verbatim>\<open>str.strip()\<close> removes and that \<^verbatim>\<open>float()\<close> skips:
  TAB, LF, VT, FF, CR, FS, GS, RS, US and the space.
\<close>

definition is_space :: "char \<Rightarrow> bool" where
  "is_space c = (c \<in> set [CHR 0x09, CHR 0x0A, CHR 0x0B, CHR 0x0C, CHR 0x0D,
                            CHR 0x1C, CHR 0x1D, CHR 0x1E, CHR 0x1F, CHR 0x20])"

definition strip :: "string \<Rightarrow> string" where
  "strip s = rev (dropWhile is_space (rev (dropWhile is_space s)))"

text \<open>\<^verbatim>\<open>s.rfind(c)\<close>: the index of the last occurrence of \<open>c\<close>, or \<open>-1\<close>.\<close>

definition rfind :: "string \<Rightarrow> char \<Rightarrow> int" where
  "rfind s c = (if c \<in> set s
                then int (length s) - 1 - int (length (takeWhile (\<lambda>x. x \<noteq> c) (rev s)))
                else - 1)"

text \<open>
  \<^verbatim>\<open>s.replace(old, new)\<close>: every non-overlapping occurrence, leftmost first. With an
  empty \<open>old\<close>, Python puts \<open>new\<close> before every character and at the end.
\<close>

fun replace_nonempty :: "string \<Rightarrow> string \<Rightarrow> string \<Rightarrow> string" where
  "replace_nonempty old new [] = []"
| "replace_nonempty old new (c # cs) =
     (if old \<noteq> [] \<and> take (length old) (c # cs) = old
      then new @ replace_nonempty old new (drop (length old) (c # cs))
      else c # replace_nonempty old new cs)"

definition replace :: "string \<Rightarrow> string \<Rightarrow> string \<Rightarrow> string" where
  "replace s old new =
     (if old = [] then new @ concat (map (\<lambda>c. c # new) s) else replace_nonempty old new s)"

section \<open>Library functions: \<^verbatim>\<open>datetime.strptime\<close> and \<^verbatim>\<open>float\<close>\<close>

text \<open>
  \<^verbatim>\<open>datetime.strptime(s, '%Y-%m-%d')\<close>. The format compiles to the regular expression
  \<^verbatim>\<open>(\d\d\d\d)-(1[0-2]|0[1-9]|[1-9])-(3[01]|[12]\d|0[1-9]|[1-9]| [1-9])\<close>, which must
  match the whole string; the year must be at least 1 and the day must exist in the
  month. A non-string argument raises \<^verbatim>\<open>TypeError\<close>, a string that does not parse
  \<^verbatim>\<open>ValueError\<close>.
\<close>

definition month_re :: "string \<Rightarrow> bool" where
  "month_re s =
     (case s of
        [a] \<Rightarrow> a \<in> set ''123456789''
      | [a, b] \<Rightarrow> (a = CHR ''1'' \<and> b \<in> set ''012'') \<or> (a = CHR ''0'' \<and> b \<in> set ''123456789'')
      | _ \<Rightarrow> False)"

definition day_re :: "string \<Rightarrow> bool" where
  "day_re s =
     (case s of
        [a] \<Rightarrow> a \<in> set ''123456789''
      | [a, b] \<Rightarrow> (a = CHR ''3'' \<and> b \<in> set ''01'') \<or> (a \<in> set ''12'' \<and> is_digit b)
                 \<or> (a = CHR ''0'' \<and> b \<in> set ''123456789'')
                 \<or> (a = CHR '' '' \<and> b \<in> set ''123456789'')
      | _ \<Rightarrow> False)"

definition is_leap :: "nat \<Rightarrow> bool" where
  "is_leap y = (y mod 4 = 0 \<and> (y mod 100 \<noteq> 0 \<or> y mod 400 = 0))"

definition days_in_month :: "nat \<Rightarrow> nat \<Rightarrow> nat" where
  "days_in_month y m =
     (if m = 2 then (if is_leap y then 29 else 28)
      else if m \<in> set [4, 6, 9, 11] then 30 else 31)"

definition strptime_ymd :: "string \<Rightarrow> error + datetime" where
  "strptime_ymd s =
     (let ys = take 4 s; r = drop 4 s;
          ms = takeWhile (\<lambda>c. c \<noteq> CHR ''-'') (drop 1 r);
          r' = dropWhile (\<lambda>c. c \<noteq> CHR ''-'') (drop 1 r);
          ds = drop 1 r';
          y = nat_of_digits ys; m = nat_of_digits ms; d = nat_of_digits (filter is_digit ds)
      in if length ys = 4 \<and> list_all is_digit ys \<and> take 1 r = ''-'' \<and> month_re ms
            \<and> take 1 r' = ''-'' \<and> day_re ds \<and> 1 \<le> y \<and> d \<le> days_in_month y m
         then Inr (y, m, d) else Inl ValueError)"

fun strptime :: "pyval \<Rightarrow> error + datetime" where
  "strptime (PStr s) = strptime_ymd s"
| "strptime v = Inl TypeError"

text \<open>
  \<^verbatim>\<open>float(s)\<close> on a string. CPython first checks that every underscore stands between
  two digits and removes them, then strips white space, then reads an optional sign, a
  mantissa with at least one digit and at most one point, and an optional exponent
  \<^verbatim>\<open>[eE][+-]?digits\<close>; the whole string must be consumed, else \<^verbatim>\<open>ValueError\<close>.
  The model covers the decimal literals. The spellings \<^verbatim>\<open>inf\<close>, \<^verbatim>\<open>infinity\<close> and
  \<^verbatim>\<open>nan\<close>, which denote no rational number, are outside it.
\<close>

fun underscores_ok :: "char \<Rightarrow> string \<Rightarrow> bool" where
  "underscores_ok prev [] = (prev \<noteq> CHR ''_'')"
| "underscores_ok prev (c # cs) =
     ((if c = CHR ''_'' then is_digit prev
       else if prev = CHR ''_'' then is_digit c else True)
      \<and> underscores_ok c cs)"

definition exponent :: "string \<Rightarrow> int option" where
  "exponent r =
     (case r of
        [] \<Rightarrow> Some 0
      | c # cs \<Rightarrow>
          if c = CHR ''e'' \<or> c = CHR ''E'' then
            (let neg = (take 1 cs = ''-'');
                 ds = (if take 1 cs = ''-'' \<or> take 1 cs = ''+'' then drop 1 cs else cs)
             in if ds \<noteq> [] \<and> list_all is_digit ds
                then Some (if neg then - int (nat_of_digits ds) else int (nat_of_digits ds))
                else None)
          else None)"

definition pow10 :: "int \<Rightarrow> rat" where
  "pow10 k = (if 0 \<le> k then 10 ^ nat k else 1 / 10 ^ nat (- k))"

definition float_literal :: "string \<Rightarrow> error + rat" where
  "float_literal s =
     (let neg = (take 1 s = ''-'');
          r0 = (if take 1 s = ''-'' \<or> take 1 s = ''+'' then drop 1 s else s);
          ip = takeWhile is_digit r0; r1 = dropWhile is_digit r0;
          pt = (take 1 r1 = ''.'');
          fp = (if pt then takeWhile is_digit (drop 1 r1) else []);
          r2 = (if pt then dropWhile is_digit (drop 1 r1) else r1)
      in if ip = [] \<and> fp = [] then Inl ValueError
         else case exponent r2 of
                None \<Rightarrow> Inl ValueError
              | Some e \<Rightarrow>
                  Inr ((if neg then - 1 else 1) * of_nat (nat_of_digits (ip @ fp))
                       * pow10 (e - int (length fp))))"

definition float_str :: "string \<Rightarrow> error + rat" where
  "float_str s =
     (if underscores_ok (CHR 0x00) s
      then float_literal (strip (filter (\<lambda>c. c \<noteq> CHR ''_'') s))
      else Inl ValueError)"

text \<open>\<^verbatim>\<open>float(v)\<close> on any value: numbers convert, \<^verbatim>\<open>None\<close> and dates raise \<^verbatim>\<open>TypeError\<close>.\<close>

fun py_float :: "pyval \<Rightarrow> error + rat" where
  "py_float (PStr s) = float_str s"
| "py_float (PInt i) = Inr (of_int i)"
| "py_float (PFloat q) = Inr q"
| "py_float v = Inl TypeError"

section \<open>The numeric normalizer\<close>

text \<open>
  \<^verbatim>\<open>normalize_num\<close>, local to \<^verbatim>\<open>load_metrics_optimized\<close>:
  \<^verbatim>\<open>
    if not val or not isinstance(val, str):
        return float(val or 0)
    val = val.strip()
    if ',' in val:
        if '.' in val and val.rfind('.') < val.rfind(','):
            val = val.replace('.', '').replace(',', '.')
        else:
            val = val.replace(',', '.')
    return float(val)
  \<close>
\<close>

definition normalize_num :: "pyval \<Rightarrow> error + rat" where
  "normalize_num val =
     (if \<not> truthy val \<or> \<not> is_str val then py_float (if truthy val then val else PInt 0)
      else case val of
             PStr s \<Rightarrow>
               (let v = strip s;
                    v' = (if CHR '','' \<in> set v
                          then (if CHR ''.'' \<in> set v \<and> rfind v (CHR ''.'') < rfind v (CHR '','')
                                then replace (replace v ''.'' '''') '','' ''.''
                                else replace v '','' ''.'')
                          else v)
                in float_str v')
           | _ \<Rightarrow> Inl TypeError)"

section \<open>Environment\<close>

text \<open>
  What the functions read from outside their arguments: the rows that
  \<^verbatim>\<open>csv.DictReader\<close> yields for \<^verbatim>\<open>data/metrics.csv\<close> (\<open>None\<close> when the file is
  missing or cannot be read), the clock, and two pieces of interpreter text that no
  property below depends on: \<^verbatim>\<open>str\<close> of a float and \<^verbatim>\<open>str\<close> of an exception.
\<close>

record env =
  metrics_csv :: "pydict list option"
  now :: datetime
  repr_float :: "rat \<Rightarrow> string"
  exc_text :: "error \<Rightarrow> string"

section \<open>Text of numbers and dates\<close>

definition digit_char :: "nat \<Rightarrow> char" where
  "digit_char n = char_of (48 + n)"

fun str_nat :: "nat \<Rightarrow> string" where
  "str_nat n = (if n < 10 then [digit_char n] else str_nat (n div 10) @ [digit_char (n mod 10)])"

declare str_nat.simps [simp del]

definition str_int :: "int \<Rightarrow> string" where
  "str_int i = (if i < 0 then ''-'' @ str_nat (nat (- i)) else str_nat (nat i))"

definition pad_left :: "nat \<Rightarrow> string \<Rightarrow> string" where
  "pad_left w s = replicate (w - length s) (CHR ''0'') @ s"

text \<open>\<^verbatim>\<open>d.strftime('%Y-%m-%d')\<close> and \<^verbatim>\<open>str(d)\<close> for a datetime at midnight.\<close>

definition strftime_ymd :: "datetime \<Rightarrow> string" where
  "strftime_ymd dt =
     (case dt of (y, m, d) \<Rightarrow>
        pad_left 4 (str_nat y) @ ''-'' @ pad_left 2 (str_nat m) @ ''-'' @ pad_left 2 (str_nat d))"

definition py_str :: "env \<Rightarrow> pyval \<Rightarrow> string" where
  "py_str E v =
     (case v of
        PNone \<Rightarrow> ''None''
      | PStr s \<Rightarrow> s
      | PInt i \<Rightarrow> str_int i
      | PFloat q \<Rightarrow> repr_float E q
      | PDate d \<Rightarrow> strftime_ymd d @ '' 00:00:00'')"

text \<open>
  The format specifications \<^verbatim>\<open>,.2f\<close> and \<^verbatim>\<open>,.0f\<close> on a number: the absolute value
  rounded to the given number of decimals (ties to even), the integer part grouped by
  thousands with commas, a point before the decimals, a minus sign for a negative number.
\<close>

definition round_half_even :: "rat \<Rightarrow> int" where
  "round_half_even x =
     (let f = \<lfloor>x\<rfloor>; r = x - of_int f
      in if r < 1 / 2 then f else if 1 / 2 < r then f + 1 else if even f then f else f + 1)"

fun group3 :: "string \<Rightarrow> string" where
  "group3 ds =
     (if length ds \<le> 3 then ds
      else group3 (take (length ds - 3) ds) @ '','' @ drop (length ds - 3) ds)"

declare group3.simps [simp del]

definition fmt_fixed :: "nat \<Rightarrow> rat \<Rightarrow> string" where
  "fmt_fixed d q =
     (let n = nat (round_half_even (\<bar>q\<bar> * 10 ^ d)); ip = n div 10 ^ d; fp = n mod 10 ^ d
      in (if q < 0 then ''-'' else []) @ group3 (str_nat ip)
         @ (if d = 0 then [] else ''.'' @ pad_left d (str_nat fp)))"

text \<open>
  \<^verbatim>\<open>f"{value:,.2f}"\<close> on any value: \<^verbatim>\<open>None\<close> raises \<^verbatim>\<open>TypeError\<close>, a string
  \<^verbatim>\<open>ValueError\<close>, and a datetime answers its \<^verbatim>\<open>strftime\<close> of the specification, which
  holds no directive and so comes back unchanged.
\<close>

definition format_spec :: "nat \<Rightarrow> pyval \<Rightarrow> error + string" where
  "format_spec d v =
     (case v of
        PInt i \<Rightarrow> Inr (fmt_fixed d (of_int i))
      | PFloat q \<Rightarrow> Inr (fmt_fixed d q)
      | PNone \<Rightarrow> Inl TypeError
      | PStr s \<Rightarrow> Inl ValueError
      | PDate dt \<Rightarrow> Inr ('',.'' @ str_nat d @ ''f''))"

section \<open>Lists: slicing and sorting\<close>

text \<open>
  \<^verbatim>\<open>xs[start:end]\<close>: a negative index counts from the end, every index is clipped to
  the list, and an empty range gives the empty list.
\<close>

definition slice_index :: "nat \<Rightarrow> int \<Rightarrow> nat" where
  "slice_index n i = nat (if i < 0 then max 0 (i + int n) else min i (int n))"

definition py_slice :: "'a list \<Rightarrow> int \<Rightarrow> int \<Rightarrow> 'a list" where
  "py_slice xs start_idx end_idx =
     (let a = slice_index (length xs) start_idx; b = slice_index (length xs) end_idx
      in take (b - a) (drop a xs))"

text \<open>
  \<^verbatim>\<open>xs.sort(key=k, reverse=r)\<close>: a stable sort; with \<^verbatim>\<open>reverse=True\<close> the list is
  reversed, sorted and reversed again, so that equal elements keep their order.
\<close>

definition py_sort :: "('a \<Rightarrow> 'k::linorder) \<Rightarrow> bool \<Rightarrow> 'a list \<Rightarrow> 'a list" where
  "py_sort key reverse xs = (if reverse then rev (sort_key key (rev xs)) else sort_key key xs)"

section \<open>\<^verbatim>\<open>sort_data\<close>\<close>

definition datetime_min :: datetime where
  "datetime_min = (1, 1, 1)"

definition date_key :: "pydict \<Rightarrow> datetime" where
  "date_key x =
     (let val = dict_get x ''date'' PNone
      in case val of
           PDate d \<Rightarrow> d
         | _ \<Rightarrow> (case strptime val of Inr d \<Rightarrow> d | Inl e \<Rightarrow> datetime_min))"

definition num_key :: "string \<Rightarrow> pydict \<Rightarrow> rat" where
  "num_key sort_by x = (case py_float (dict_get x sort_by (PInt 0)) of Inr q \<Rightarrow> q | Inl e \<Rightarrow> 0)"

definition str_key :: "env \<Rightarrow> string \<Rightarrow> pydict \<Rightarrow> string" where
  "str_key E sort_by x = py_str E (dict_get x sort_by (PStr []))"

definition numeric_fields :: "string list" where
  "numeric_fields = [''cost_micros'', ''clicks'', ''conversions'', ''impressions'', ''interactions'']"

text \<open>
  The three key functions catch their own exceptions or cannot raise, so the
  \<^verbatim>\<open>except\<close> clause of \<^verbatim>\<open>sort_data\<close> is never entered.
\<close>

definition sort_data :: "env \<Rightarrow> pydict list \<Rightarrow> string \<Rightarrow> bool \<Rightarrow> pydict list" where
  "sort_data E data sort_by sort_desc =
     (if sort_by = ''date'' then py_sort date_key sort_desc data
      else if sort_by \<in> set numeric_fields then py_sort (num_key sort_by) sort_desc data
      else if sort_by \<in> set [''account_id'', ''campaign_id'']
      then py_sort (str_key E sort_by) sort_desc data
      else data)"

section \<open>\<^verbatim>\<open>load_metrics_optimized\<close>\<close>

text \<open>
  A date bound: absent when the argument is \<^verbatim>\<open>None\<close> or empty, or when
  \<^verbatim>\<open>strptime\<close> raises \<^verbatim>\<open>ValueError\<close>, which is caught and logged.
\<close>

definition parse_bound :: "string option \<Rightarrow> error + datetime option" where
  "parse_bound b =
     (case b of
        None \<Rightarrow> Inr None
      | Some s \<Rightarrow>
          if s = [] then Inr None
          else (case strptime (PStr s) of
                  Inr d \<Rightarrow> Inr (Some d)
                | Inl ValueError \<Rightarrow> Inr None
                | Inl e \<Rightarrow> Inl e))"

text \<open>
  The body of the \<^verbatim>\<open>try\<close> inside the row loop. \<open>Inr None\<close> is \<^verbatim>\<open>continue\<close>,
  \<open>Inr (Some row)\<close> is the row that is appended.
\<close>

definition process_row_body ::
  "datetime option \<Rightarrow> datetime option \<Rightarrow> pydict \<Rightarrow> error + pydict option" where
  "process_row_body start_dt end_dt row =
     bind (subscript row ''date'') (\<lambda>dv.
     bind (strptime dv) (\<lambda>row_date.
       if (case start_dt of Some s \<Rightarrow> row_date < s | None \<Rightarrow> False) then Inr None
       else if (case end_dt of Some e \<Rightarrow> e < row_date | None \<Rightarrow> False) then Inr None
       else
         bind (normalize_num (dict_get row ''cost_micros'' (PStr ''0''))) (\<lambda>v1.
         let row = row(''cost_micros'' \<mapsto> PFloat v1) in
         bind (normalize_num (dict_get row ''clicks'' (PStr ''0''))) (\<lambda>v2.
         let row = row(''clicks'' \<mapsto> PFloat v2) in
         bind (normalize_num (dict_get row ''conversions'' (PStr ''0''))) (\<lambda>v3.
         let row = row(''conversions'' \<mapsto> PFloat v3) in
         bind (normalize_num (dict_get row ''impressions'' (PStr ''0''))) (\<lambda>v4.
         let row = row(''impressions'' \<mapsto> PFloat v4) in
         bind (normalize_num (dict_get row ''interactions'' (PStr ''0''))) (\<lambda>v5.
         let row = row(''interactions'' \<mapsto> PFloat v5) in
         Inr (Some (row(''date'' \<mapsto> PDate row_date))))))))))"

text \<open>\<^verbatim>\<open>except (ValueError, KeyError): continue\<close>; any other exception leaves the loop.\<close>

definition process_row ::
  "datetime option \<Rightarrow> datetime option \<Rightarrow> pydict \<Rightarrow> error + pydict option" where
  "process_row start_dt end_dt row =
     (case process_row_body start_dt end_dt row of
        Inl ValueError \<Rightarrow> Inr None
      | Inl (KeyError k) \<Rightarrow> Inr None
      | Inl e \<Rightarrow> Inl e
      | Inr r \<Rightarrow> Inr r)"

fun load_rows ::
  "datetime option \<Rightarrow> datetime option \<Rightarrow> pydict list \<Rightarrow> pydict list \<Rightarrow> error + pydict list" where
  "load_rows start_dt end_dt [] all_metrics = Inr all_metrics"
| "load_rows start_dt end_dt (row # rows) all_metrics =
     (case process_row start_dt end_dt row of
        Inl e \<Rightarrow> Inl e
      | Inr None \<Rightarrow> load_rows start_dt end_dt rows all_metrics
      | Inr (Some r) \<Rightarrow> load_rows start_dt end_dt rows (all_metrics @ [r]))"

text \<open>
  The rows that pass the filter, in file order (\<^verbatim>\<open>all_metrics\<close> before sorting), or
  the exception that the outer \<^verbatim>\<open>except Exception\<close> will catch.
\<close>

definition filtered_metrics ::
  "pydict list \<Rightarrow> string option \<Rightarrow> string option \<Rightarrow> error + pydict list" where
  "filtered_metrics rows start_date end_date =
     bind (parse_bound start_date) (\<lambda>start_dt.
     bind (parse_bound end_date) (\<lambda>end_dt.
     load_rows start_dt end_dt rows []))"

definition load_metrics_optimized ::
  "env \<Rightarrow> string option \<Rightarrow> string option \<Rightarrow> string \<Rightarrow> bool \<Rightarrow> int \<Rightarrow> int \<Rightarrow> pydict list \<times> int" where
  "load_metrics_optimized E start_date end_date sort_by sort_desc page page_size =
     (case metrics_csv E of
        None \<Rightarrow> ([], 0)
      | Some rows \<Rightarrow>
          (case filtered_metrics rows start_date end_date of
             Inl e \<Rightarrow> ([], 0)
           | Inr all_metrics \<Rightarrow>
               (let total_filtered = int (length all_metrics);
                    all_metrics = sort_data E all_metrics sort_by sort_desc;
                    start_idx = (page - 1) * page_size;
                    end_idx = start_idx + page_size;
                    paginated_data = py_slice all_metrics start_idx end_idx
                in (paginated_data, total_filtered))))"

section \<open>Responses\<close>

text \<open>
  A handler returns a dictionary that the framework serialises as JSON; an object keeps
  its keys in insertion order. A handler that raises \<^verbatim>\<open>HTTPException\<close> answers with a
  status code and a detail text.
\<close>

datatype json = JNull | JInt int | JStr string | JArr "json list" | JObj "(string \<times> json) list"

datatype http = Response json | HTTPException nat string

definition MAX_RECORDS_PER_REQUEST :: int where
  "MAX_RECORDS_PER_REQUEST = 1000"

text \<open>The member of an object under a key; none when the key is absent.\<close>

fun json_member :: "json \<Rightarrow> string \<Rightarrow> json option" where
  "json_member (JObj kvs) k = map_of kvs k"
| "json_member j k = None"

section \<open>\<^verbatim>\<open>GET /columns\<close>\<close>

definition column :: "string \<Rightarrow> string \<Rightarrow> json" where
  "column k l = JObj [(''key'', JStr k), (''label'', JStr l)]"

definition list_insert :: "nat \<Rightarrow> 'a \<Rightarrow> 'a list \<Rightarrow> 'a list" where
  "list_insert i x xs = take i xs @ x # drop i xs"

text \<open>The handler has no \<^verbatim>\<open>try\<close>: a missing \<^verbatim>\<open>role\<close> key raises out of it.\<close>

definition get_available_columns :: "pydict \<Rightarrow> error + json" where
  "get_available_columns current_user =
     (let base_columns =
            [column ''account_id'' ''Account ID'',
             column ''campaign_id'' ''Campaign ID'',
             column ''clicks'' ''Clicks'',
             column ''conversions'' ''Conversions'',
             column ''impressions'' ''Impressions'',
             column ''interactions'' ''Interactions'',
             column ''date'' ''Date'']
      in bind (subscript current_user ''role'') (\<lambda>role.
           let base_columns =
                 (if role = PStr ''admin''
                  then list_insert 2 (column ''cost_micros'' ''Cost (Micros)'') base_columns
                  else base_columns)
           in Inr (JObj [(''columns'', JArr base_columns)])))"

section \<open>\<^verbatim>\<open>GET /data\<close>\<close>

text \<open>\<^verbatim>\<open>value == 0\<close> holds for the integer and the float zero only.\<close>

definition eq_zero :: "pyval \<Rightarrow> bool" where
  "eq_zero v = (v = PInt 0 \<or> v = PFloat 0)"

definition format_br :: "pyval \<Rightarrow> error + string" where
  "format_br val =
     (if eq_zero val then Inr ''0,00''
      else bind (format_spec 2 val) (\<lambda>str_value.
             let str_value = replace str_value '','' ''TEMP'';
                 str_value = replace str_value ''.'' '','';
                 str_value = replace str_value ''TEMP'' ''.''
             in Inr str_value))"

text \<open>\<^verbatim>\<open>v.strftime('%Y-%m-%d')\<close>: only a datetime has the method.\<close>

definition py_strftime :: "pyval \<Rightarrow> error + string" where
  "py_strftime v = (case v of PDate d \<Rightarrow> Inr (strftime_ymd d) | _ \<Rightarrow> Inl AttributeError)"

text \<open>One pass of the loop over \<^verbatim>\<open>data\<close>: the item built for a row.\<close>

definition format_row :: "env \<Rightarrow> pydict \<Rightarrow> pydict \<Rightarrow> error + json" where
  "format_row E current_user row =
     (let item = [(''account_id'', JStr (py_str E (dict_get row ''account_id'' (PStr [])))),
                  (''campaign_id'', JStr (py_str E (dict_get row ''campaign_id'' (PStr []))))]
      in bind (format_br (dict_get row ''clicks'' (PInt 0))) (\<lambda>clicks.
         bind (format_br (dict_get row ''conversions'' (PInt 0))) (\<lambda>conversions.
         bind (format_br (dict_get row ''impressions'' (PInt 0))) (\<lambda>impressions.
         bind (format_br (dict_get row ''interactions'' (PInt 0))) (\<lambda>interactions.
         bind (py_strftime (dict_get row ''date'' (PDate (now E)))) (\<lambda>date.
         let item = item @ [(''clicks'', JStr clicks), (''conversions'', JStr conversions),
                            (''impressions'', JStr impressions),
                            (''interactions'', JStr interactions), (''date'', JStr date)]
         in bind (subscript current_user ''role'') (\<lambda>role.
              if role = PStr ''admin''
              then bind (format_br (dict_get row ''cost_micros'' (PInt 0))) (\<lambda>cost.
                     Inr (JObj (item @ [(''cost_micros'', JStr cost)])))
              else Inr (JObj item))))))))"

fun format_rows :: "env \<Rightarrow> pydict \<Rightarrow> pydict list \<Rightarrow> error + json list" where
  "format_rows E current_user [] = Inr []"
| "format_rows E current_user (row # rows) =
     bind (format_row E current_user row) (\<lambda>item.
     bind (format_rows E current_user rows) (\<lambda>items. Inr (item # items)))"

text \<open>Integer \<^verbatim>\<open>//\<close>: floor division, \<^verbatim>\<open>ZeroDivisionError\<close> on a zero divisor.\<close>

definition floordiv :: "int \<Rightarrow> int \<Rightarrow> error + int" where
  "floordiv a b = (if b = 0 then Inl ZeroDivisionError else Inr (a div b))"

text \<open>
  The body of the handler's \<^verbatim>\<open>try\<close>. The log line reads
  \<^verbatim>\<open>current_user['username']\<close> before anything else.
\<close>

definition get_metrics_data_body ::
  "env \<Rightarrow> string option \<Rightarrow> string option \<Rightarrow> string \<Rightarrow> bool \<Rightarrow> int \<Rightarrow> int \<Rightarrow> pydict
     \<Rightarrow> error + json" where
  "get_metrics_data_body E start_date end_date sort_by sort_desc page page_size current_user =
     (let page_size = min page_size MAX_RECORDS_PER_REQUEST;
          page = max 1 page
      in bind (subscript current_user ''username'') (\<lambda>username.
         case load_metrics_optimized E start_date end_date sort_by sort_desc page page_size of
           (data, total') \<Rightarrow>
             if data = []
             then Inr (JObj [(''data'', JArr []), (''total'', JInt 0), (''page'', JInt page),
                             (''page_size'', JInt page_size), (''total_pages'', JInt 0),
                             (''message'', JStr ''Nenhum dado encontrado'')])
             else bind (format_rows E current_user data) (\<lambda>response_data.
                  bind (floordiv (total' + page_size - 1) page_size) (\<lambda>total_pages.
                  Inr (JObj [(''data'', JArr response_data), (''total'', JInt total'),
                             (''page'', JInt page), (''page_size'', JInt page_size),
                             (''total_pages'', JInt total_pages),
                             (''showing'', JInt (int (length response_data)))])))))"

definition get_metrics_data ::
  "env \<Rightarrow> string option \<Rightarrow> string option \<Rightarrow> string \<Rightarrow> bool \<Rightarrow> int \<Rightarrow> int \<Rightarrow> pydict \<Rightarrow> http" where
  "get_metrics_data E start_date end_date sort_by sort_desc page page_size current_user =
     (case get_metrics_data_body E start_date end_date sort_by sort_desc page page_size
             current_user of
        Inr r \<Rightarrow> Response r
      | Inl e \<Rightarrow> HTTPException 500 (''Erro interno do servidor: '' @ exc_text E e))"

section \<open>\<^verbatim>\<open>GET /stats\<close>\<close>

text \<open>\<^verbatim>\<open>sum\<close> over the values of a column: a value that is not a number raises.\<close>

fun py_sum :: "rat \<Rightarrow> pyval list \<Rightarrow> error + rat" where
  "py_sum acc [] = Inr acc"
| "py_sum acc (v # vs) =
     (case v of
        PInt i \<Rightarrow> py_sum (acc + of_int i) vs
      | PFloat q \<Rightarrow> py_sum (acc + q) vs
      | _ \<Rightarrow> Inl TypeError)"

definition zero_stats :: "(string \<times> json) list" where
  "zero_stats = [(''total_records'', JInt 0), (''total_clicks'', JStr ''0''),
                 (''total_conversions'', JStr ''0''), (''total_impressions'', JStr ''0'')]"

definition get_basic_stats_body :: "env \<Rightarrow> string option \<Rightarrow> string option \<Rightarrow> pydict \<Rightarrow> error + json" where
  "get_basic_stats_body E start_date end_date current_user =
     bind (subscript current_user ''username'') (\<lambda>username.
     case load_metrics_optimized E start_date end_date ''date'' False 1 5000 of
       (sample_data, total') \<Rightarrow>
         if sample_data = [] then Inr (JObj zero_stats)
         else
           bind (py_sum 0 (map (\<lambda>row. dict_get row ''clicks'' (PInt 0)) sample_data))
             (\<lambda>total_clicks.
           bind (py_sum 0 (map (\<lambda>row. dict_get row ''conversions'' (PInt 0)) sample_data))
             (\<lambda>total_conversions.
           bind (py_sum 0 (map (\<lambda>row. dict_get row ''impressions'' (PInt 0)) sample_data))
             (\<lambda>total_impressions.
           Inr (JObj [(''total_records'', JInt total'),
                      (''total_clicks'', JStr (fmt_fixed 0 total_clicks)),
                      (''total_conversions'', JStr (fmt_fixed 0 total_conversions)),
                      (''total_impressions'', JStr (fmt_fixed 0 total_impressions)),
                      (''note'',
                       if int (length sample_data) < total'
                       then JStr (''Calculado com amostra de ''
                                  @ str_int (int (length sample_data)) @ '' registros'')
                       else JNull)])))))"

definition get_basic_stats :: "env \<Rightarrow> string option \<Rightarrow> string option \<Rightarrow> pydict \<Rightarrow> http" where
  "get_basic_stats E start_date end_date current_user =
     (case get_basic_stats_body E start_date end_date current_user of
        Inr r \<Rightarrow> Response r
      | Inl e \<Rightarrow> Response (JObj (zero_stats @ [(''error'', JStr (exc_text E e))])))"

section \<open>Auxiliary notions\<close>

text \<open>The two range tests of the row loop, both passed.\<close>

definition in_range :: "datetime option \<Rightarrow> datetime option \<Rightarrow> datetime \<Rightarrow> bool" where
  "in_range start_dt end_dt d =
     ((case start_dt of Some s \<Rightarrow> s \<le> d | None \<Rightarrow> True)
      \<and> (case end_dt of Some e \<Rightarrow> d \<le> e | None \<Rightarrow> True))"

text \<open>The rows that the loop appends, in file order, when no row makes it raise.\<close>

definition kept_rows :: "datetime option \<Rightarrow> datetime option \<Rightarrow> pydict list \<Rightarrow> pydict list" where
  "kept_rows start_dt end_dt rows =
     List.map_filter (\<lambda>row. case process_row start_dt end_dt row of
                               Inr (Some r) \<Rightarrow> Some r | _ \<Rightarrow> None) rows"

text \<open>
  What the loader guarantees of every row it returns: a datetime under \<^verbatim>\<open>date\<close> and a
  float under each of the five numeric keys.
\<close>

definition loaded :: "pydict \<Rightarrow> bool" where
  "loaded r = ((\<exists>d. r ''date'' = Some (PDate d))
               \<and> (\<forall>f\<in>set numeric_fields. \<exists>q. r f = Some (PFloat q)))"

text \<open>
  Sample data for the concrete instances below: a CSV row that holds only a date, the row
  the loader makes of it, the item \<^verbatim>\<open>/data\<close> makes of that for a caller who is not an
  admin, an environment around a given file, and a user with a given role.
\<close>

definition day_row :: "string \<Rightarrow> pydict" where
  "day_row s = [''date'' \<mapsto> PStr s]"

definition day_loaded :: "string \<Rightarrow> datetime \<Rightarrow> pydict" where
  "day_loaded s d =
     [''date'' \<mapsto> PStr s, ''cost_micros'' \<mapsto> PFloat 0, ''clicks'' \<mapsto> PFloat 0,
      ''conversions'' \<mapsto> PFloat 0, ''impressions'' \<mapsto> PFloat 0,
      ''interactions'' \<mapsto> PFloat 0, ''date'' \<mapsto> PDate d]"

definition day_item :: "string \<Rightarrow> (string \<times> json) list" where
  "day_item s =
     [(''account_id'', JStr []), (''campaign_id'', JStr []), (''clicks'', JStr ''0,00''),
      (''conversions'', JStr ''0,00''), (''impressions'', JStr ''0,00''),
      (''interactions'', JStr ''0,00''), (''date'', JStr s)]"

definition test_env :: "pydict list \<Rightarrow> env" where
  "test_env rows =
     \<lparr>metrics_csv = Some rows, now = (2025, 1, 1), repr_float = (\<lambda>q. []), exc_text = (\<lambda>e. [])\<rparr>"

definition test_user :: "string \<Rightarrow> pydict" where
  "test_user role = [''username'' \<mapsto> PStr ''ana'', ''role'' \<mapsto> PStr role]"

section \<open>Facts about the string and number primitives\<close>

lemma digit_not_special:
  "is_digit c \<Longrightarrow> c \<noteq> CHR ''_'' \<and> c \<noteq> CHR ''.'' \<and> c \<noteq> CHR '','' \<and> c \<noteq> CHR ''-'' \<and> c \<noteq> CHR ''+'' \<and> \<not> is_space c"
  by (auto simp: is_digit_def is_space_def)

lemma underscores_ok_none:
  "CHR ''_'' \<notin> set s \<Longrightarrow> prev \<noteq> CHR ''_'' \<Longrightarrow> underscores_ok prev s"
  by (induction s arbitrary: prev) auto

lemma filter_id_conv: "x \<notin> set s \<Longrightarrow> filter (\<lambda>c. c \<noteq> x) s = s"
  by (induction s) auto

lemma strip_id:
  "s \<noteq> [] \<Longrightarrow> \<not> is_space (hd s) \<Longrightarrow> \<not> is_space (last s) \<Longrightarrow> strip s = s"
proof -
  assume a: "s \<noteq> []" "\<not> is_space (hd s)" "\<not> is_space (last s)"
  then have "dropWhile is_space s = s" by (cases s) auto
  moreover have "dropWhile is_space (rev s) = rev s"
    using a by (cases "rev s") (auto simp: last_rev hd_rev)
  ultimately show ?thesis by (simp add: strip_def)
qed

lemma rfind_last_occurrence:
  "x \<notin> set ys \<Longrightarrow> rfind (xs @ x # ys) x = int (length xs)"
proof -
  assume a: "x \<notin> set ys"
  have "takeWhile (\<lambda>c. c \<noteq> x) (rev ys @ x # rev xs) = rev ys"
    using a by (subst takeWhile_append2) auto
  then show ?thesis using a by (simp add: rfind_def)
qed

lemma float_str_decimal:
  assumes "list_all is_digit a" "list_all is_digit c" "a \<noteq> []"
  shows "float_str (a @ ''.'' @ c) = Inr (of_nat (nat_of_digits (a @ c)) / 10 ^ length c)"
proof -
  let ?s = "a @ ''.'' @ c"
  have da: "\<forall>x\<in>set a. is_digit x" and dc: "\<forall>x\<in>set c. is_digit x"
    using assms by (simp_all add: list_all_iff)
  have nu: "CHR ''_'' \<notin> set ?s" using da dc digit_not_special by auto
  have hd_a: "is_digit (hd a)" using assms(3) da by simp
  have sp: "strip ?s = ?s"
  proof (rule strip_id)
    show "?s \<noteq> []" by simp
    show "\<not> is_space (hd ?s)" using hd_a assms(3) digit_not_special by simp
    show "\<not> is_space (last ?s)"
      using dc digit_not_special by (cases "c = []") (auto simp: is_space_def)
  qed
  obtain x a' where a: "a = x # a'" using assms(3) by (cases a) auto
  have dx: "is_digit x" and da': "\<forall>y\<in>set a'. is_digit y" using da a by auto
  have sx: "x \<noteq> CHR ''-''" "x \<noteq> CHR ''+''" using dx digit_not_special by auto
  have tw: "takeWhile is_digit (a' @ CHR ''.'' # c) = a'"
    "dropWhile is_digit (a' @ CHR ''.'' # c) = CHR ''.'' # c"
    using da' by (simp_all add: takeWhile_append2 dropWhile_append2 is_digit_def)
  have twc: "takeWhile is_digit c = c" "dropWhile is_digit c = []"
    using dc by (simp_all add: takeWhile_eq_all_conv)
  have "float_literal ?s = Inr (of_nat (nat_of_digits (a @ c)) * pow10 (- int (length c)))"
    unfolding float_literal_def Let_def a
    by (simp add: exponent_def dx sx tw twc)
  moreover have "pow10 (- int (length c)) = 1 / 10 ^ length c"
    by (simp add: pow10_def)
  ultimately show ?thesis
    using nu sp by (simp add: float_str_def underscores_ok_none filter_id_conv)
qed



lemma replace_nonempty_single:
  "replace_nonempty [x] new s = concat (map (\<lambda>c. if c = x then new else [c]) s)"
  by (induction s) simp_all

lemma replace_char_delete: "replace s [x] [] = filter (\<lambda>c. c \<noteq> x) s"
  unfolding replace_def replace_nonempty_single by (induction s) simp_all

lemma replace_char_char: "replace s [x] [y] = map (\<lambda>c. if c = x then y else c) s"
  unfolding replace_def replace_nonempty_single by (induction s) simp_all

lemma normalize_num_str:
  "s \<noteq> [] \<Longrightarrow> normalize_num (PStr s) =
     float_str (let v = strip s in
                if CHR '','' \<in> set v
                then (if CHR ''.'' \<in> set v \<and> rfind v (CHR ''.'') < rfind v (CHR '','')
                      then map (\<lambda>c. if c = CHR '','' then CHR ''.'' else c)
                             (filter (\<lambda>c. c \<noteq> CHR ''.'') v)
                      else map (\<lambda>c. if c = CHR '','' then CHR ''.'' else c) v)
                else v)"
  by (simp add: normalize_num_def Let_def replace_char_delete replace_char_char)

lemma map_comma_digits:
  "list_all is_digit a \<Longrightarrow> map (\<lambda>c. if c = CHR '','' then CHR ''.'' else c) a = a"
  by (induction a) (auto simp: is_digit_def)

lemma filter_point_digits:
  "list_all is_digit a \<Longrightarrow> filter (\<lambda>c. c \<noteq> CHR ''.'') a = a"
  by (induction a) (auto simp: is_digit_def)

lemma digits_no_sep:
  "list_all is_digit a \<Longrightarrow> CHR '','' \<notin> set a \<and> CHR ''.'' \<notin> set a"
  by (induction a) (auto simp: is_digit_def)

lemma strip_digits_around:
  assumes "list_all is_digit a" "a \<noteq> []" "list_all is_digit c" "\<not> is_space sep"
  shows "strip (a @ m @ sep # c) = a @ m @ sep # c"
proof (rule strip_id)
  show "a @ m @ sep # c \<noteq> []" by simp
  show "\<not> is_space (hd (a @ m @ sep # c))"
    using assms(1,2) digit_not_special by (cases a) auto
  show "\<not> is_space (last (a @ m @ sep # c))"
    using assms(3,4) digit_not_special by (cases "c = []") (auto simp: list_all_iff)
qed

lemma normalize_num_thousands_comma:
  assumes "list_all is_digit a" "list_all is_digit b" "list_all is_digit c" "a \<noteq> []"
  shows "normalize_num (PStr (a @ ''.'' @ b @ '','' @ c))
         = Inr (of_nat (nat_of_digits (a @ b @ c)) / 10 ^ length c)"
proof -
  define v where "v = a @ ''.'' @ b @ '','' @ c"
  have ne: "v \<noteq> []" by (simp add: v_def)
  have sp: "strip v = v"
    unfolding v_def
    using strip_digits_around [OF assms(1) assms(4) assms(3), of "CHR '',''" "''.'' @ b"]
    by (simp add: is_space_def)
  have mem: "CHR '','' \<in> set v" "CHR ''.'' \<in> set v" by (simp_all add: v_def)
  have r1: "rfind v (CHR '','') = int (length a) + 1 + int (length b)"
    unfolding v_def
    using rfind_last_occurrence [of "CHR '',''" c "a @ ''.'' @ b"] digits_no_sep [OF assms(3)]
    by simp
  have r2: "rfind v (CHR ''.'') = int (length a)"
    unfolding v_def
    using rfind_last_occurrence [of "CHR ''.''" "b @ '','' @ c" a]
      digits_no_sep [OF assms(2)] digits_no_sep [OF assms(3)]
    by simp
  have tr: "map (\<lambda>c. if c = CHR '','' then CHR ''.'' else c) (filter (\<lambda>c. c \<noteq> CHR ''.'') v)
            = (a @ b) @ ''.'' @ c"
    unfolding v_def using assms(1-3) by (simp add: map_comma_digits filter_point_digits)
  have "normalize_num (PStr v) = float_str ((a @ b) @ ''.'' @ c)"
    unfolding normalize_num_str [OF ne] sp Let_def using mem r1 r2 tr by simp
  also have "\<dots> = Inr (of_nat (nat_of_digits ((a @ b) @ c)) / 10 ^ length c)"
    by (rule float_str_decimal) (use assms in simp_all)
  finally show ?thesis by (simp add: v_def)
qed

lemma normalize_num_decimal_comma:
  assumes "list_all is_digit a" "list_all is_digit c" "a \<noteq> []"
  shows "normalize_num (PStr (a @ '','' @ c))
         = Inr (of_nat (nat_of_digits (a @ c)) / 10 ^ length c)"
proof -
  define v where "v = a @ '','' @ c"
  have ne: "v \<noteq> []" by (simp add: v_def)
  have sp: "strip v = v"
    unfolding v_def
    using strip_digits_around [OF assms(1) assms(3) assms(2), of "CHR '',''" "[]"]
    by (simp add: is_space_def)
  have mem: "CHR '','' \<in> set v" by (simp add: v_def)
  have nd: "CHR ''.'' \<notin> set v"
    unfolding v_def using digits_no_sep [OF assms(1)] digits_no_sep [OF assms(2)] by simp
  have tr: "map (\<lambda>c. if c = CHR '','' then CHR ''.'' else c) v = a @ ''.'' @ c"
    unfolding v_def using assms(1,2) by (simp add: map_comma_digits)
  have "normalize_num (PStr v) = float_str (a @ ''.'' @ c)"
    unfolding normalize_num_str [OF ne] sp Let_def using mem nd tr by simp
  also have "\<dots> = Inr (of_nat (nat_of_digits (a @ c)) / 10 ^ length c)"
    by (rule float_str_decimal) (use assms in simp_all)
  finally show ?thesis by (simp add: v_def)
qed

lemma normalize_num_decimal_point:
  assumes "list_all is_digit a" "list_all is_digit c" "a \<noteq> []"
  shows "normalize_num (PStr (a @ ''.'' @ c))
         = Inr (of_nat (nat_of_digits (a @ c)) / 10 ^ length c)"
proof -
  define v where "v = a @ ''.'' @ c"
  have ne: "v \<noteq> []" by (simp add: v_def)
  have sp: "strip v = v"
    unfolding v_def
    using strip_digits_around [OF assms(1) assms(3) assms(2), of "CHR ''.''" "[]"]
    by (simp add: is_space_def)
  have nd: "CHR '','' \<notin> set v"
    unfolding v_def using digits_no_sep [OF assms(1)] digits_no_sep [OF assms(2)] by simp
  have "normalize_num (PStr v) = float_str v"
    unfolding normalize_num_str [OF ne] sp Let_def using nd by simp
  also have "\<dots> = Inr (of_nat (nat_of_digits (a @ c)) / 10 ^ length c)"
    unfolding v_def by (rule float_str_decimal) (use assms in simp_all)
  finally show ?thesis by (simp add: v_def)
qed

lemma float_str_1234_56: "float_str ''1234.56'' = Inr (30864 / 25)"
  by (simp add: float_str_def float_literal_def strip_def is_space_def is_digit_def
      exponent_def pow10_def nat_of_digits_def digit_val_def)

lemma float_str_50: "float_str ''50'' = Inr 50"
  by (simp add: float_str_def float_literal_def strip_def is_space_def is_digit_def
      exponent_def pow10_def nat_of_digits_def digit_val_def)

lemma float_str_two_points: "float_str ''1.234.56'' = Inl ValueError"
  by (simp add: float_str_def float_literal_def strip_def is_space_def is_digit_def
      exponent_def)

lemma float_str_abc: "float_str ''abc'' = Inl ValueError"
  by (simp add: float_str_def float_literal_def strip_def is_space_def is_digit_def
      exponent_def)

section \<open>The numeric normalizer (C1)\<close>

text \<open>
  C1, as amended. The normalizer answers \<open>0\<close> for \<^verbatim>\<open>None\<close> and for the empty string,
  \<open>50\<close> for \<^verbatim>\<open>"50"\<close> and \<open>1234.56\<close> for \<^verbatim>\<open>"1.234,56"\<close>. For a non-empty string,
  with \<open>v\<close> the stripped text: without a comma, the result is \<^verbatim>\<open>float(v)\<close>; with a comma
  and a point whose last occurrence precedes the last comma, the points are removed and
  every comma becomes a point before \<^verbatim>\<open>float\<close>; with a comma and no point, every comma
  becomes a point before \<^verbatim>\<open>float\<close>. In particular, for digit strings \<open>a\<close> (non-empty),
  \<open>b\<close> and \<open>c\<close>, the texts \<open>a.c\<close>, \<open>a,c\<close> and \<open>a.b,c\<close> normalize to the decimal number
  with integer digits \<open>a\<close> (resp. \<open>ab\<close>) and fraction digits \<open>c\<close>. Whatever \<^verbatim>\<open>float\<close>
  rejects is raised as \<^verbatim>\<open>ValueError\<close>, not turned into \<open>0\<close>.
\<close>

theorem normalize_num_rule:
  "normalize_num PNone = Inr 0 \<and> normalize_num (PStr []) = Inr 0 \<and>
   normalize_num (PStr ''50'') = Inr 50 \<and>
   normalize_num (PStr ''1.234,56'') = Inr (30864 / 25) \<and>
   (s \<noteq> [] \<and> CHR '','' \<notin> set (strip s) \<longrightarrow> normalize_num (PStr s) = float_str (strip s)) \<and>
   (s \<noteq> [] \<and> CHR '','' \<in> set (strip s) \<and> CHR ''.'' \<in> set (strip s)
      \<and> rfind (strip s) (CHR ''.'') < rfind (strip s) (CHR '','')
    \<longrightarrow> normalize_num (PStr s) =
        float_str (map (\<lambda>c. if c = CHR '','' then CHR ''.'' else c)
                     (filter (\<lambda>c. c \<noteq> CHR ''.'') (strip s)))) \<and>
   (s \<noteq> [] \<and> CHR '','' \<in> set (strip s) \<and> CHR ''.'' \<notin> set (strip s)
    \<longrightarrow> normalize_num (PStr s) =
        float_str (map (\<lambda>c. if c = CHR '','' then CHR ''.'' else c) (strip s))) \<and>
   (list_all is_digit a \<and> list_all is_digit b \<and> list_all is_digit c \<and> a \<noteq> []
    \<longrightarrow> normalize_num (PStr (a @ ''.'' @ c))
          = Inr (of_nat (nat_of_digits (a @ c)) / 10 ^ length c)
      \<and> normalize_num (PStr (a @ '','' @ c))
          = Inr (of_nat (nat_of_digits (a @ c)) / 10 ^ length c)
      \<and> normalize_num (PStr (a @ ''.'' @ b @ '','' @ c))
          = Inr (of_nat (nat_of_digits (a @ b @ c)) / 10 ^ length c))"
proof -
  have z: "normalize_num PNone = Inr 0" "normalize_num (PStr []) = Inr 0"
    by (simp_all add: normalize_num_def)
  have s50: "strip ''50'' = ''50''" by code_simp
  have fifty: "normalize_num (PStr ''50'') = Inr 50"
    by (simp add: normalize_num_str s50 float_str_50)
  have sb: "strip ''1.234,56'' = ''1.234,56''" by code_simp
  have rf: "rfind ''1.234,56'' (CHR ''.'') = 1" "rfind ''1.234,56'' (CHR '','') = 5"
    by code_simp+
  have br: "normalize_num (PStr ''1.234,56'') = Inr (30864 / 25)"
    by (simp add: normalize_num_str sb rf float_str_1234_56)
  have gen: "s \<noteq> [] \<Longrightarrow> normalize_num (PStr s) =
     float_str (let v = strip s in
                if CHR '','' \<in> set v
                then (if CHR ''.'' \<in> set v \<and> rfind v (CHR ''.'') < rfind v (CHR '','')
                      then map (\<lambda>c. if c = CHR '','' then CHR ''.'' else c)
                             (filter (\<lambda>c. c \<noteq> CHR ''.'') v)
                      else map (\<lambda>c. if c = CHR '','' then CHR ''.'' else c) v)
                else v)"
    by (rule normalize_num_str)
  have dig: "list_all is_digit a \<and> list_all is_digit b \<and> list_all is_digit c \<and> a \<noteq> []
    \<longrightarrow> normalize_num (PStr (a @ ''.'' @ c))
          = Inr (of_nat (nat_of_digits (a @ c)) / 10 ^ length c)
      \<and> normalize_num (PStr (a @ '','' @ c))
          = Inr (of_nat (nat_of_digits (a @ c)) / 10 ^ length c)
      \<and> normalize_num (PStr (a @ ''.'' @ b @ '','' @ c))
          = Inr (of_nat (nat_of_digits (a @ b @ c)) / 10 ^ length c)"
    using normalize_num_decimal_point [of a c] normalize_num_decimal_comma [of a c]
      normalize_num_thousands_comma [of a b c]
    by blast
  show ?thesis
    apply (intro conjI impI)
    using z fifty br dig gen by (simp_all add: Let_def)
qed

theorem normalize_num_rule_witness:
  "normalize_num (PStr '' 3.5 '') = Inr (7 / 2) \<and>
   normalize_num (PStr ''2.000,5'') = Inr (4001 / 2) \<and>
   normalize_num (PStr ''12,5'') = Inr (25 / 2) \<and>
   normalize_num (PStr ''7.25'') = Inr (29 / 4) \<and>
   normalize_num (PStr ''7,25'') = Inr (29 / 4) \<and>
   normalize_num (PStr ''7.000,25'') = Inr (28001 / 4)"
proof -
  have s1: "strip '' 3.5 '' = ''3.5''" and s2: "strip ''2.000,5'' = ''2.000,5''"
    and s3: "strip ''12,5'' = ''12,5''"
    by code_simp+
  have r2: "rfind ''2.000,5'' (CHR ''.'') = 1" "rfind ''2.000,5'' (CHR '','') = 5"
    by code_simp+
  have f1: "float_str ''3.5'' = Inr (7 / 2)" and f2: "float_str ''2000.5'' = Inr (4001 / 2)"
    and f3: "float_str ''12.5'' = Inr (25 / 2)"
    by (simp_all add: float_str_def float_literal_def strip_def is_space_def is_digit_def
        exponent_def pow10_def nat_of_digits_def digit_val_def)
  have d: "list_all is_digit ''7''" "list_all is_digit ''000''" "list_all is_digit ''25''"
    by (simp_all add: is_digit_def)
  have n: "nat_of_digits ''725'' = 725" "nat_of_digits ''700025'' = 700025"
    by (simp_all add: nat_of_digits_def digit_val_def)
  have a: "normalize_num (PStr '' 3.5 '') = Inr (7 / 2)"
    using normalize_num_rule [of "'' 3.5 ''"] by (simp add: s1 f1)
  have b: "normalize_num (PStr ''2.000,5'') = Inr (4001 / 2)"
    using normalize_num_rule [of "''2.000,5''"] by (simp add: s2 r2 f2)
  have c: "normalize_num (PStr ''12,5'') = Inr (25 / 2)"
    using normalize_num_rule [of "''12,5''"] by (simp add: s3 f3)
  have e: "normalize_num (PStr ''7.25'') = Inr (29 / 4) \<and>
           normalize_num (PStr ''7,25'') = Inr (29 / 4) \<and>
           normalize_num (PStr ''7.000,25'') = Inr (28001 / 4)"
    using normalize_num_rule [of _ "''7''" "''000''" "''25''"] d n by simp
  show ?thesis using a b c e by simp
qed

text \<open>
  C1 as stated fails: \<^verbatim>\<open>"1,234.56"\<close> does not normalize to \<open>1234.56\<close> (the comma is
  turned into a second point and \<^verbatim>\<open>float\<close> rejects the text), and a non-numeric value
  does not normalize to \<open>0\<close>; both raise \<^verbatim>\<open>ValueError\<close>.
\<close>

theorem normalize_num_counterexample:
  "normalize_num (PStr ''1,234.56'') = Inl ValueError \<and>
   normalize_num (PStr ''abc'') = Inl ValueError"
proof -
  have s1: "strip ''1,234.56'' = ''1,234.56''" by code_simp
  have rf: "rfind ''1,234.56'' (CHR ''.'') = 5" "rfind ''1,234.56'' (CHR '','') = 1"
    by code_simp+
  have s2: "strip ''abc'' = ''abc''" by code_simp
  show ?thesis
    by (simp add: normalize_num_str s1 s2 rf float_str_two_points float_str_abc)
qed

section \<open>Facts about the row loop\<close>

lemma subscript_Inr_iff: "subscript d k = Inr v \<longleftrightarrow> d k = Some v"
  by (simp add: subscript_def split: option.splits)

lemma dict_get_upd_other: "k \<noteq> k' \<Longrightarrow> dict_get (d(k' \<mapsto> v)) k dflt = dict_get d k dflt"
  by (simp add: dict_get_def)

lemma bind5_Some:
  "bind m1 (\<lambda>v1. bind m2 (\<lambda>v2. bind m3 (\<lambda>v3. bind m4 (\<lambda>v4. bind m5 (\<lambda>v5.
      Inr (Some (g v1 v2 v3 v4 v5))))))) = Inr (Some r)
   \<longleftrightarrow> (\<exists>v1 v2 v3 v4 v5. m1 = Inr v1 \<and> m2 = Inr v2 \<and> m3 = Inr v3 \<and> m4 = Inr v4 \<and> m5 = Inr v5
         \<and> r = g v1 v2 v3 v4 v5)"
  by (cases m1; cases m2; cases m3; cases m4; cases m5) (auto simp: bind_def)

lemma process_row_body_date:
  assumes "row ''date'' = Some dv" "strptime dv = Inr d"
  shows "process_row_body start_dt end_dt row =
     (if \<not> in_range start_dt end_dt d then Inr None
      else bind (normalize_num (dict_get row ''cost_micros'' (PStr ''0''))) (\<lambda>v1.
           bind (normalize_num (dict_get row ''clicks'' (PStr ''0''))) (\<lambda>v2.
           bind (normalize_num (dict_get row ''conversions'' (PStr ''0''))) (\<lambda>v3.
           bind (normalize_num (dict_get row ''impressions'' (PStr ''0''))) (\<lambda>v4.
           bind (normalize_num (dict_get row ''interactions'' (PStr ''0''))) (\<lambda>v5.
           Inr (Some (row(''cost_micros'' \<mapsto> PFloat v1, ''clicks'' \<mapsto> PFloat v2,
                 ''conversions'' \<mapsto> PFloat v3, ''impressions'' \<mapsto> PFloat v4,
                 ''interactions'' \<mapsto> PFloat v5, ''date'' \<mapsto> PDate d)))))))))"
proof -
  have s: "subscript row ''date'' = Inr dv" using assms(1) by (simp add: subscript_def)
  show ?thesis
    unfolding process_row_body_def Let_def s in_range_def
    by (cases start_dt; cases end_dt)
       (simp_all add: bind_def assms(2) dict_get_upd_other not_le
          del: less_prod_simp less_eq_prod_simp)
qed

lemma process_row_body_no_date:
  "row ''date'' = None \<Longrightarrow> process_row_body start_dt end_dt row = Inl (KeyError ''date'')"
  by (simp add: process_row_body_def subscript_def bind_def)

lemma process_row_body_bad_date:
  "row ''date'' = Some dv \<Longrightarrow> strptime dv = Inl e \<Longrightarrow> process_row_body start_dt end_dt row = Inl e"
  by (simp add: process_row_body_def subscript_def bind_def)

lemma process_row_Some:
  "process_row start_dt end_dt row = Inr (Some r)
   \<longleftrightarrow> process_row_body start_dt end_dt row = Inr (Some r)"
  by (simp add: process_row_def split: sum.splits error.splits)

lemma process_row_Some_iff:
  "process_row start_dt end_dt row = Inr (Some r) \<longleftrightarrow>
   (\<exists>dv d v1 v2 v3 v4 v5.
      row ''date'' = Some dv \<and> strptime dv = Inr d \<and> in_range start_dt end_dt d
      \<and> normalize_num (dict_get row ''cost_micros'' (PStr ''0'')) = Inr v1
      \<and> normalize_num (dict_get row ''clicks'' (PStr ''0'')) = Inr v2
      \<and> normalize_num (dict_get row ''conversions'' (PStr ''0'')) = Inr v3
      \<and> normalize_num (dict_get row ''impressions'' (PStr ''0'')) = Inr v4
      \<and> normalize_num (dict_get row ''interactions'' (PStr ''0'')) = Inr v5
      \<and> r = row(''cost_micros'' \<mapsto> PFloat v1, ''clicks'' \<mapsto> PFloat v2,
                 ''conversions'' \<mapsto> PFloat v3, ''impressions'' \<mapsto> PFloat v4,
                 ''interactions'' \<mapsto> PFloat v5, ''date'' \<mapsto> PDate d))"
  (is "?L \<longleftrightarrow> ?R")
proof (cases "row ''date''")
  case None
  then show ?thesis
    by (simp add: process_row_Some process_row_body_no_date)
next
  case (Some dv)
  show ?thesis
  proof (cases "strptime dv")
    case (Inl e)
    then show ?thesis using Some
      by (simp add: process_row_Some process_row_body_bad_date)
  next
    case (Inr d)
    have b: "process_row_body start_dt end_dt row =
     (if \<not> in_range start_dt end_dt d then Inr None
      else bind (normalize_num (dict_get row ''cost_micros'' (PStr ''0''))) (\<lambda>v1.
           bind (normalize_num (dict_get row ''clicks'' (PStr ''0''))) (\<lambda>v2.
           bind (normalize_num (dict_get row ''conversions'' (PStr ''0''))) (\<lambda>v3.
           bind (normalize_num (dict_get row ''impressions'' (PStr ''0''))) (\<lambda>v4.
           bind (normalize_num (dict_get row ''interactions'' (PStr ''0''))) (\<lambda>v5.
           Inr (Some (row(''cost_micros'' \<mapsto> PFloat v1, ''clicks'' \<mapsto> PFloat v2,
                 ''conversions'' \<mapsto> PFloat v3, ''impressions'' \<mapsto> PFloat v4,
                 ''interactions'' \<mapsto> PFloat v5, ''date'' \<mapsto> PDate d)))))))))"
      using Some Inr by (rule process_row_body_date)
    show ?thesis
      unfolding process_row_Some b
      using Some Inr
      by (cases "in_range start_dt end_dt d")
         (simp_all add: bind5_Some del: split_paired_Ex split_paired_All)
  qed
qed

lemma kept_rows_Nil [simp]: "kept_rows sd ed [] = []"
  by (simp add: kept_rows_def map_filter_simps)

lemma kept_rows_Cons:
  "kept_rows sd ed (row # rows) =
     (case process_row sd ed row of Inr (Some r) \<Rightarrow> r # kept_rows sd ed rows
      | _ \<Rightarrow> kept_rows sd ed rows)"
  by (simp add: kept_rows_def map_filter_simps split: sum.splits option.splits)

lemma load_rows_Inr:
  "load_rows sd ed rows acc = Inr all \<Longrightarrow> all = acc @ kept_rows sd ed rows"
proof (induction rows arbitrary: acc)
  case Nil
  then show ?case by simp
next
  case (Cons row rows)
  show ?case
  proof (cases "process_row sd ed row")
    case (Inl e)
    then show ?thesis using Cons.prems by simp
  next
    case (Inr x)
    show ?thesis
    proof (cases x)
      case None
      then have "load_rows sd ed rows acc = Inr all" using Cons.prems Inr by simp
      then have "all = acc @ kept_rows sd ed rows" by (rule Cons.IH)
      then show ?thesis using Inr None by (simp add: kept_rows_Cons)
    next
      case (Some r)
      then have "load_rows sd ed rows (acc @ [r]) = Inr all" using Cons.prems Inr by simp
      then have "all = (acc @ [r]) @ kept_rows sd ed rows" by (rule Cons.IH)
      then show ?thesis using Inr Some by (simp add: kept_rows_Cons)
    qed
  qed
qed

lemma load_rows_no_abort:
  "\<forall>row\<in>set rows. \<forall>e. process_row sd ed row \<noteq> Inl e
   \<Longrightarrow> load_rows sd ed rows acc = Inr (acc @ kept_rows sd ed rows)"
proof (induction rows arbitrary: acc)
  case Nil
  then show ?case by simp
next
  case (Cons row rows)
  then show ?case
    by (cases "process_row sd ed row")
       (auto simp: kept_rows_Cons split: option.splits)
qed

lemma set_kept_rows:
  "set (kept_rows sd ed rows) = {r. \<exists>row\<in>set rows. process_row sd ed row = Inr (Some r)}"
  by (induction rows) (auto simp: kept_rows_Cons split: sum.splits option.splits)

lemma strptime_str_error: "strptime (PStr s) = Inl e \<Longrightarrow> e = ValueError"
  by (simp add: strptime_ymd_def Let_def split: if_splits)

lemma parse_bound_cases:
  "parse_bound b = Inr (case b of None \<Rightarrow> None
                        | Some s \<Rightarrow> (case strptime (PStr s) of Inr d \<Rightarrow> Some d | Inl e \<Rightarrow> None))"
proof (cases b)
  case None
  then show ?thesis by (simp add: parse_bound_def)
next
  case (Some s)
  have e: "strptime (PStr []) = Inl ValueError"
    by (simp add: strptime_ymd_def)
  show ?thesis
  proof (cases "strptime (PStr s)")
    case (Inl e')
    then have "e' = ValueError" by (rule strptime_str_error)
    then show ?thesis using Some Inl by (simp add: parse_bound_def)
  next
    case (Inr d)
    then have "s \<noteq> []" using e by auto
    then show ?thesis using Some Inr by (simp add: parse_bound_def)
  qed
qed

lemma filtered_metrics_eq:
  "parse_bound start_date = Inr sd \<Longrightarrow> parse_bound end_date = Inr ed
   \<Longrightarrow> filtered_metrics rows start_date end_date = load_rows sd ed rows []"
  by (simp add: filtered_metrics_def bind_def)

lemma in_range_iff:
  "in_range start_dt end_dt d \<longleftrightarrow>
     (\<forall>s. start_dt = Some s \<longrightarrow> s \<le> d) \<and> (\<forall>e. end_dt = Some e \<longrightarrow> d \<le> e)"
  by (cases start_dt; cases end_dt) (simp_all add: in_range_def del: less_eq_prod_simp)

lemma normalize_num_absent:
  "row f = None \<or> row f = Some PNone \<or> row f = Some (PStr [])
   \<Longrightarrow> normalize_num (dict_get row f (PStr ''0'')) = Inr 0"
proof -
  have z: "normalize_num (PStr ''0'') = Inr 0"
    by (simp add: normalize_num_str strip_def is_space_def float_str_def float_literal_def
        is_digit_def exponent_def pow10_def nat_of_digits_def digit_val_def)
  have n: "normalize_num PNone = Inr 0" "normalize_num (PStr []) = Inr 0"
    by (simp_all add: normalize_num_def)
  assume "row f = None \<or> row f = Some PNone \<or> row f = Some (PStr [])"
  then show ?thesis
    by (elim disjE) (simp_all add: dict_get_def z n)
qed

lemma process_row_fields:
  assumes "process_row start_dt end_dt row = Inr (Some r)" "f \<in> set numeric_fields"
  shows "\<exists>q. normalize_num (dict_get row f (PStr ''0'')) = Inr q \<and> r f = Some (PFloat q)"
  using assms unfolding process_row_Some_iff numeric_fields_def
  by (auto simp del: split_paired_Ex split_paired_All)

lemma process_row_kept_iff:
  "(\<exists>r. process_row start_dt end_dt row = Inr (Some r)) \<longleftrightarrow>
     (\<exists>dv d. row ''date'' = Some dv \<and> strptime dv = Inr d
        \<and> (\<forall>s. start_dt = Some s \<longrightarrow> s \<le> d) \<and> (\<forall>e. end_dt = Some e \<longrightarrow> d \<le> e))
     \<and> (\<forall>f\<in>set numeric_fields. \<exists>q. normalize_num (dict_get row f (PStr ''0'')) = Inr q)"
  unfolding process_row_Some_iff in_range_iff numeric_fields_def
  by (simp del: split_paired_Ex split_paired_All less_eq_prod_simp) blast

lemma strptime_2024_01_01: "strptime_ymd ''2024-01-01'' = Inr (2024, 1, 1)"
  by code_simp

lemma strptime_2024_03_05: "strptime_ymd ''2024-03-05'' = Inr (2024, 3, 5)"
  by code_simp

lemma strptime_slashes: "strptime_ymd ''05/03/2024'' = Inl ValueError"
  by code_simp

lemma normalize_num_zero_text: "normalize_num (PStr ''0'') = Inr 0"
  by (simp add: normalize_num_str strip_def is_space_def float_str_def float_literal_def
      is_digit_def exponent_def pow10_def nat_of_digits_def digit_val_def)

lemma normalize_num_abc: "normalize_num (PStr ''abc'') = Inl ValueError"
proof -
  have "strip ''abc'' = ''abc''" by code_simp
  then show ?thesis by (simp add: normalize_num_str float_str_abc)
qed

lemma normalize_num_n_a: "normalize_num (PStr ''n/a'') = Inl ValueError"
proof -
  have "strip ''n/a'' = ''n/a''" by code_simp
  moreover have "float_str ''n/a'' = Inl ValueError"
    by (simp add: float_str_def float_literal_def strip_def is_space_def is_digit_def
        exponent_def)
  ultimately show ?thesis by (simp add: normalize_num_str)
qed


section \<open>Malformed numeric fields (C2)\<close>

text \<open>
  C2, as amended. A row is kept exactly when its date parses and lies within the bounds
  and each of the five numeric fields normalizes without an exception. A numeric field
  that is missing, \<^verbatim>\<open>None\<close> or empty normalizes to \<open>0\<close> and does not drop the row; a
  kept row holds the normalized number under each of the five keys; and the rows returned
  by the loader are exactly the rows kept. A row with a numeric field that \<^verbatim>\<open>float\<close>
  rejects is dropped like a row with a bad date.
\<close>

theorem row_kept_iff:
  "((\<exists>r. process_row start_dt end_dt row = Inr (Some r)) \<longleftrightarrow>
      (\<exists>dv d. row ''date'' = Some dv \<and> strptime dv = Inr d
         \<and> (\<forall>s. start_dt = Some s \<longrightarrow> s \<le> d) \<and> (\<forall>e. end_dt = Some e \<longrightarrow> d \<le> e))
      \<and> (\<forall>f\<in>set numeric_fields. \<exists>q. normalize_num (dict_get row f (PStr ''0'')) = Inr q))
   \<and> (\<forall>f\<in>set numeric_fields.
         row f = None \<or> row f = Some PNone \<or> row f = Some (PStr [])
         \<longrightarrow> normalize_num (dict_get row f (PStr ''0'')) = Inr 0)
   \<and> (\<forall>r. process_row start_dt end_dt row = Inr (Some r) \<longrightarrow>
         (\<forall>f\<in>set numeric_fields.
            \<exists>q. normalize_num (dict_get row f (PStr ''0'')) = Inr q \<and> r f = Some (PFloat q)))
   \<and> (\<forall>all. filtered_metrics rows start_date end_date = Inr all
           \<and> parse_bound start_date = Inr start_dt \<and> parse_bound end_date = Inr end_dt
         \<longrightarrow> set all = {r. \<exists>row\<in>set rows. process_row start_dt end_dt row = Inr (Some r)})"
proof (intro conjI)
  show "(\<exists>r. process_row start_dt end_dt row = Inr (Some r)) \<longleftrightarrow>
      (\<exists>dv d. row ''date'' = Some dv \<and> strptime dv = Inr d
         \<and> (\<forall>s. start_dt = Some s \<longrightarrow> s \<le> d) \<and> (\<forall>e. end_dt = Some e \<longrightarrow> d \<le> e))
      \<and> (\<forall>f\<in>set numeric_fields. \<exists>q. normalize_num (dict_get row f (PStr ''0'')) = Inr q)"
    by (rule process_row_kept_iff)
  show "\<forall>f\<in>set numeric_fields.
         row f = None \<or> row f = Some PNone \<or> row f = Some (PStr [])
         \<longrightarrow> normalize_num (dict_get row f (PStr ''0'')) = Inr 0"
    using normalize_num_absent by blast
  show "\<forall>r. process_row start_dt end_dt row = Inr (Some r) \<longrightarrow>
         (\<forall>f\<in>set numeric_fields.
            \<exists>q. normalize_num (dict_get row f (PStr ''0'')) = Inr q \<and> r f = Some (PFloat q))"
    using process_row_fields by blast
  show "\<forall>all. filtered_metrics rows start_date end_date = Inr all
           \<and> parse_bound start_date = Inr start_dt \<and> parse_bound end_date = Inr end_dt
         \<longrightarrow> set all = {r. \<exists>row\<in>set rows. process_row start_dt end_dt row = Inr (Some r)}"
  proof (intro allI impI, elim conjE)
    fix all
    assume a: "filtered_metrics rows start_date end_date = Inr all"
      and b: "parse_bound start_date = Inr start_dt" "parse_bound end_date = Inr end_dt"
    have "load_rows start_dt end_dt rows [] = Inr all"
      using a filtered_metrics_eq [OF b] by simp
    then have "all = kept_rows start_dt end_dt rows"
      using load_rows_Inr by fastforce
    then show "set all = {r. \<exists>row\<in>set rows. process_row start_dt end_dt row = Inr (Some r)}"
      by (simp add: set_kept_rows)
  qed
qed

theorem row_kept_iff_witness:
  "\<exists>r. process_row None None
          [''date'' \<mapsto> PStr ''2024-01-01'', ''clicks'' \<mapsto> PStr [], ''impressions'' \<mapsto> PNone]
        = Inr (Some r)
      \<and> r ''clicks'' = Some (PFloat 0) \<and> r ''impressions'' = Some (PFloat 0)
      \<and> r ''cost_micros'' = Some (PFloat 0)"
proof -
  let ?row = "[''date'' \<mapsto> PStr ''2024-01-01'', ''clicks'' \<mapsto> PStr [], ''impressions'' \<mapsto> PNone]"
  note t = row_kept_iff [of None None ?row]
  have n: "\<forall>f\<in>set numeric_fields. normalize_num (dict_get ?row f (PStr ''0'')) = Inr 0"
    using t by (simp add: numeric_fields_def)
  have d: "?row ''date'' = Some (PStr ''2024-01-01'')" by simp
  have "\<exists>r. process_row None None ?row = Inr (Some r)"
    using t n d strptime_2024_01_01 by (simp del: split_paired_Ex)
  then obtain r where r: "process_row None None ?row = Inr (Some r)" ..
  have "\<forall>f\<in>set numeric_fields. r f = Some (PFloat 0)"
    using t r n by fastforce
  then show ?thesis using r by (auto simp: numeric_fields_def)
qed

text \<open>
  C2 as stated fails: a row whose date parses and whose \<^verbatim>\<open>clicks\<close> field is the text
  \<^verbatim>\<open>abc\<close> is dropped (the \<^verbatim>\<open>ValueError\<close> of \<^verbatim>\<open>float\<close> reaches the
  \<^verbatim>\<open>except (ValueError, KeyError)\<close> of the loop), not kept with the field set to \<open>0\<close>.
\<close>

theorem malformed_numeric_row_dropped:
  "filtered_metrics [[''date'' \<mapsto> PStr ''2024-01-01'', ''clicks'' \<mapsto> PStr ''abc'']] None None
   = Inr []"
proof -
  let ?row = "[''date'' \<mapsto> PStr ''2024-01-01'', ''clicks'' \<mapsto> PStr ''abc'']"
  have "process_row_body None None ?row = Inl ValueError"
    by (subst process_row_body_date [of ?row "PStr ''2024-01-01''" "(2024, 1, 1)"])
       (simp_all add: strptime_2024_01_01 in_range_def dict_get_def bind_def
          normalize_num_zero_text normalize_num_abc)
  then have "process_row None None ?row = Inr None"
    by (simp add: process_row_def)
  then show ?thesis
    by (simp add: filtered_metrics_def parse_bound_def bind_def)
qed

section \<open>The date filter (C4)\<close>

lemma process_row_unparsed:
  assumes "\<forall>dv d. row ''date'' = Some dv \<longrightarrow> strptime dv \<noteq> Inr d"
  shows "process_row start_dt end_dt row \<noteq> Inr (Some r)"
  using assms unfolding process_row_Some_iff
  by (simp del: split_paired_Ex split_paired_All)

lemma parse_bound_ok: "strptime (PStr b) = Inr d \<Longrightarrow> parse_bound (Some b) = Inr (Some d)"
  using parse_bound_cases [of "Some b"] by simp

lemma parse_bound_ignored:
  "\<forall>d. strptime (PStr b) \<noteq> Inr d \<Longrightarrow> parse_bound (Some b) = Inr None"
  using parse_bound_cases [of "Some b"]
  by (cases "strptime (PStr b)") (simp_all del: split_paired_All strptime.simps)

text \<open>
  C4, as amended. For a row whose date parses and whose five numeric fields normalize:
  the row is kept exactly when its date is not before the start bound and not after the
  end bound, for the bounds that are present (so a row dated on a bound passes that bound).
  A row whose date is missing or does not parse is never kept, whatever the bounds. A
  bound that parses is used; a bound that does not parse as \<^verbatim>\<open>YYYY-MM-DD\<close> is ignored,
  the load being the same as with the bound absent.
\<close>

theorem date_filter:
  "(row ''date'' = Some dv \<and> strptime dv = Inr d
      \<and> (\<forall>f\<in>set numeric_fields. \<exists>q. normalize_num (dict_get row f (PStr ''0'')) = Inr q)
    \<longrightarrow> ((\<exists>r. process_row start_dt end_dt row = Inr (Some r))
          \<longleftrightarrow> (\<forall>s. start_dt = Some s \<longrightarrow> s \<le> d) \<and> (\<forall>e. end_dt = Some e \<longrightarrow> d \<le> e)))
   \<and> ((\<forall>dv d. row ''date'' = Some dv \<longrightarrow> strptime dv \<noteq> Inr d)
      \<longrightarrow> (\<forall>r. process_row start_dt end_dt row \<noteq> Inr (Some r)))
   \<and> (strptime (PStr b) = Inr d' \<longrightarrow> parse_bound (Some b) = Inr (Some d'))
   \<and> ((\<forall>d. strptime (PStr b) \<noteq> Inr d)
      \<longrightarrow> parse_bound (Some b) = parse_bound None
        \<and> filtered_metrics rows (Some b) end_date = filtered_metrics rows None end_date
        \<and> filtered_metrics rows start_date (Some b) = filtered_metrics rows start_date None)"
proof (intro conjI impI)
  assume a: "row ''date'' = Some dv \<and> strptime dv = Inr d
      \<and> (\<forall>f\<in>set numeric_fields. \<exists>q. normalize_num (dict_get row f (PStr ''0'')) = Inr q)"
  show "(\<exists>r. process_row start_dt end_dt row = Inr (Some r))
          \<longleftrightarrow> (\<forall>s. start_dt = Some s \<longrightarrow> s \<le> d) \<and> (\<forall>e. end_dt = Some e \<longrightarrow> d \<le> e)"
    unfolding process_row_kept_iff using a
    by (simp del: split_paired_Ex split_paired_All less_eq_prod_simp)
next
  assume "\<forall>dv d. row ''date'' = Some dv \<longrightarrow> strptime dv \<noteq> Inr d"
  then show "\<forall>r. process_row start_dt end_dt row \<noteq> Inr (Some r)"
    using process_row_unparsed by blast
next
  assume "strptime (PStr b) = Inr d'"
  then show "parse_bound (Some b) = Inr (Some d')" by (rule parse_bound_ok)
next
  assume a: "\<forall>d. strptime (PStr b) \<noteq> Inr d"
  then have p: "parse_bound (Some b) = Inr None" by (rule parse_bound_ignored)
  have n: "parse_bound None = Inr None" by (simp add: parse_bound_def)
  show "parse_bound (Some b) = parse_bound None" using p n by simp
  show "filtered_metrics rows (Some b) end_date = filtered_metrics rows None end_date"
    by (simp add: filtered_metrics_def p n)
  show "filtered_metrics rows start_date (Some b) = filtered_metrics rows start_date None"
    by (simp add: filtered_metrics_def p n)
qed

theorem date_filter_witness:
  "(\<exists>r. process_row (Some (2024, 3, 5)) (Some (2024, 3, 31))
           [''date'' \<mapsto> PStr ''2024-03-05'', ''clicks'' \<mapsto> PStr ''0''] = Inr (Some r))
   \<and> (\<exists>r. process_row (Some (2024, 1, 1)) (Some (2024, 3, 5))
           [''date'' \<mapsto> PStr ''2024-03-05'', ''clicks'' \<mapsto> PStr ''0''] = Inr (Some r))
   \<and> \<not> (\<exists>r. process_row (Some (2024, 3, 6)) None
           [''date'' \<mapsto> PStr ''2024-03-05'', ''clicks'' \<mapsto> PStr ''0''] = Inr (Some r))
   \<and> \<not> (\<exists>r. process_row None None
           [''date'' \<mapsto> PStr ''05/03/2024'', ''clicks'' \<mapsto> PStr ''0''] = Inr (Some r))
   \<and> parse_bound (Some ''2024-03-05'') = Inr (Some (2024, 3, 5))
   \<and> filtered_metrics [] (Some ''05/03/2024'') None = filtered_metrics [] None None"
proof -
  let ?row = "[''date'' \<mapsto> PStr ''2024-03-05'', ''clicks'' \<mapsto> PStr ''0'']"
  let ?bad = "[''date'' \<mapsto> PStr ''05/03/2024'', ''clicks'' \<mapsto> PStr ''0'']"
  have n: "\<forall>f\<in>set numeric_fields. \<exists>q. normalize_num (dict_get ?row f (PStr ''0'')) = Inr q"
    by (simp add: numeric_fields_def dict_get_def normalize_num_zero_text)
  have d: "?row ''date'' = Some (PStr ''2024-03-05'')"
    "strptime (PStr ''2024-03-05'') = Inr (2024, 3, 5)"
    by (simp_all add: strptime_2024_03_05)
  have 1: "\<exists>r. process_row (Some (2024, 3, 5)) (Some (2024, 3, 31)) ?row = Inr (Some r)"
    using date_filter [of ?row "PStr ''2024-03-05''" "(2024, 3, 5)"
        "Some (2024, 3, 5)" "Some (2024, 3, 31)"] n d
    by (simp del: split_paired_Ex)
  have 2: "\<exists>r. process_row (Some (2024, 1, 1)) (Some (2024, 3, 5)) ?row = Inr (Some r)"
    using date_filter [of ?row "PStr ''2024-03-05''" "(2024, 3, 5)"
        "Some (2024, 1, 1)" "Some (2024, 3, 5)"] n d
    by (simp del: split_paired_Ex)
  have 3: "\<not> (\<exists>r. process_row (Some (2024, 3, 6)) None ?row = Inr (Some r))"
    using date_filter [of ?row "PStr ''2024-03-05''" "(2024, 3, 5)"
        "Some (2024, 3, 6)" None] n d
    by (simp del: split_paired_Ex)
  have b: "\<forall>d. strptime (PStr ''05/03/2024'') \<noteq> Inr d"
    by (simp add: strptime_slashes)
  have 4: "\<not> (\<exists>r. process_row None None ?bad = Inr (Some r))"
    using date_filter [of ?bad _ _ None None] b
    by (simp del: split_paired_Ex split_paired_All)
  have 5: "parse_bound (Some ''2024-03-05'') = Inr (Some (2024, 3, 5))"
    using date_filter [of _ _ _ _ _ "''2024-03-05''" "(2024, 3, 5)"] d(2) by blast
  have 6: "filtered_metrics [] (Some ''05/03/2024'') None = filtered_metrics [] None None"
    using date_filter [of _ _ _ _ _ "''05/03/2024''"] b by blast
  show ?thesis using 1 2 3 4 5 6 by blast
qed

text \<open>
  C4 as stated fails: a row whose date parses and equals \<^verbatim>\<open>start_date\<close> is not included
  when one of its numeric fields is rejected by \<^verbatim>\<open>float\<close>.
\<close>

theorem date_on_bound_dropped:
  "strptime (PStr ''2024-03-05'') = Inr (2024, 3, 5)
   \<and> parse_bound (Some ''2024-03-05'') = Inr (Some (2024, 3, 5))
   \<and> filtered_metrics [[''date'' \<mapsto> PStr ''2024-03-05'', ''clicks'' \<mapsto> PStr ''n/a'']]
        (Some ''2024-03-05'') None = Inr []"
proof -
  let ?row = "[''date'' \<mapsto> PStr ''2024-03-05'', ''clicks'' \<mapsto> PStr ''n/a'']"
  have p: "parse_bound (Some ''2024-03-05'') = Inr (Some (2024, 3, 5))"
    by (rule parse_bound_ok) (simp add: strptime_2024_03_05)
  have "process_row_body (Some (2024, 3, 5)) None ?row = Inl ValueError"
    by (subst process_row_body_date [of ?row "PStr ''2024-03-05''" "(2024, 3, 5)"])
       (simp_all add: strptime_2024_03_05 in_range_def dict_get_def bind_def
          normalize_num_zero_text normalize_num_n_a)
  then have "process_row (Some (2024, 3, 5)) None ?row = Inr None"
    by (simp add: process_row_def)
  then show ?thesis
    by (simp add: filtered_metrics_def p bind_def strptime_2024_03_05 parse_bound_def)
qed

section \<open>Sorting (C5)\<close>


lemma py_sort_sorted: "sorted (map key (py_sort key False xs))"
  by (simp add: py_sort_def)

lemma py_sort_sorted_desc: "sorted (rev (map key (py_sort key True xs)))"
  by (simp add: py_sort_def rev_map)

lemma set_py_sort [simp]: "set (py_sort key reverse xs) = set xs"
  by (simp add: py_sort_def)

lemma length_py_sort [simp]: "length (py_sort key reverse xs) = length xs"
  by (simp add: py_sort_def)

lemma set_sort_data [simp]: "set (sort_data E data sort_by sort_desc) = set data"
  by (simp add: sort_data_def)

lemma length_sort_data [simp]: "length (sort_data E data sort_by sort_desc) = length data"
  by (simp add: sort_data_def)





section \<open>Facts about slicing, formatting and the handlers\<close>

lemma process_row_loaded:
  "process_row start_dt end_dt row = Inr (Some r) \<Longrightarrow> loaded r"
  unfolding process_row_Some_iff loaded_def numeric_fields_def
  by (auto simp del: split_paired_Ex split_paired_All)

lemma kept_rows_loaded: "r \<in> set (kept_rows sd ed rows) \<Longrightarrow> loaded r"
  using process_row_loaded by (auto simp: set_kept_rows)

lemma parse_bound_total: "\<exists>x. parse_bound b = Inr x"
  using parse_bound_cases by blast

lemma filtered_metrics_kept:
  assumes "filtered_metrics rows start_date end_date = Inr all"
  shows "\<exists>sd ed. parse_bound start_date = Inr sd \<and> parse_bound end_date = Inr ed
                \<and> all = kept_rows sd ed rows"
proof -
  obtain sd ed where b: "parse_bound start_date = Inr sd" "parse_bound end_date = Inr ed"
    using parse_bound_total by blast
  have "load_rows sd ed rows [] = Inr all"
    using assms filtered_metrics_eq [OF b] by simp
  then have "all = kept_rows sd ed rows" using load_rows_Inr by fastforce
  then show ?thesis using b by blast
qed

lemma filtered_metrics_loaded:
  "filtered_metrics rows start_date end_date = Inr all \<Longrightarrow> r \<in> set all \<Longrightarrow> loaded r"
  using filtered_metrics_kept kept_rows_loaded by blast

lemma load_metrics_optimized_eq:
  assumes "metrics_csv E = Some rows" "filtered_metrics rows start_date end_date = Inr all"
  shows "load_metrics_optimized E start_date end_date sort_by sort_desc page page_size
         = (py_slice (sort_data E all sort_by sort_desc) ((page - 1) * page_size)
              ((page - 1) * page_size + page_size), int (length all))"
  using assms by (simp add: load_metrics_optimized_def Let_def)

lemma set_py_slice: "set (py_slice xs a b) \<subseteq> set xs"
  unfolding py_slice_def Let_def
  by (meson set_take_subset set_drop_subset subset_trans)

lemma length_py_slice_page:
  assumes "0 \<le> s" "0 \<le> n"
  shows "int (length (py_slice xs s (s + n))) = min n (max 0 (int (length xs) - s))"
  using assms by (auto simp: py_slice_def slice_index_def Let_def min_def max_def)

lemma py_slice_prefix:
  assumes "0 < k" "k \<le> int (length xs)"
  shows "py_slice xs 0 (- k) = take (length xs - nat k) xs"
  using assms by (auto simp: py_slice_def slice_index_def Let_def min_def max_def nat_diff_distrib)

lemma py_slice_empty: "py_slice xs 0 0 = []"
  by (simp add: py_slice_def slice_index_def)

lemma neg_div:
  fixes n ps :: int
  assumes "0 < ps"
  shows "(n + ps - 1) div ps = - ((- n) div ps)"
proof -
  define q r where "q = n div ps" and "r = n mod ps"
  have n: "n = q * ps + r" by (simp add: q_def r_def)
  have r: "0 \<le> r" "r < ps" using assms by (simp_all add: r_def)
  have e: "n + ps - 1 = (r + ps - 1) + q * ps" using n by simp
  have "(n + ps - 1) div ps = ((r + ps - 1) + q * ps) div ps" by (simp only: e)
  also have "\<dots> = (r + ps - 1) div ps + q"
    using assms div_mult_self1 [of ps "r + ps - 1" q] by linarith
  finally have a: "(n + ps - 1) div ps = (r + ps - 1) div ps + q" .
  have b: "(- n) div ps = (if r = 0 then - q else - q - 1)"
    using assms by (simp add: zdiv_zminus1_eq_if q_def r_def)
  show ?thesis
  proof (cases "r = 0")
    case True
    then have "(r + ps - 1) div ps = 0" using assms by simp
    then show ?thesis using a b True by simp
  next
    case False
    then have "0 < r" using r by simp
    have e': "r + ps - 1 = (r - 1) + 1 * ps" by simp
    have "(r + ps - 1) div ps = ((r - 1) + 1 * ps) div ps" by (simp only: e')
    then have "(r + ps - 1) div ps = (r - 1) div ps + 1"
      using assms div_mult_self1 [of ps "r - 1" 1] by linarith
    moreover have "(r - 1) div ps = 0" using r \<open>0 < r\<close> by simp
    ultimately show ?thesis using a b False by simp
  qed
qed

lemma bind_Inr_iff: "bind m f = Inr y \<longleftrightarrow> (\<exists>x. m = Inr x \<and> f x = Inr y)"
  by (cases m) (simp_all add: bind_def)

lemma format_br_float: "\<exists>s. format_br (PFloat q) = Inr s"
  by (simp add: format_br_def format_spec_def bind_def Let_def)

lemma format_row_loaded:
  assumes "loaded r" "current_user ''role'' = Some role"
  shows "\<exists>kvs. format_row E current_user r = Inr (JObj kvs)"
proof -
  obtain d q1 q2 q3 q4 q5 where v: "r ''date'' = Some (PDate d)"
    "r ''clicks'' = Some (PFloat q1)" "r ''conversions'' = Some (PFloat q2)"
    "r ''impressions'' = Some (PFloat q3)" "r ''interactions'' = Some (PFloat q4)"
    "r ''cost_micros'' = Some (PFloat q5)"
    using assms(1) unfolding loaded_def numeric_fields_def
    by (auto simp del: split_paired_Ex)
  obtain s1 s2 s3 s4 s5 where s: "format_br (PFloat q1) = Inr s1" "format_br (PFloat q2) = Inr s2"
    "format_br (PFloat q3) = Inr s3" "format_br (PFloat q4) = Inr s4"
    "format_br (PFloat q5) = Inr s5"
    using format_br_float by metis
  show ?thesis
    unfolding format_row_def Let_def
    by (simp add: dict_get_def v s bind_def py_strftime_def subscript_def assms(2))
qed

lemma format_row_cost:
  assumes "format_row E current_user r = Inr item"
  shows "json_member item ''cost_micros'' \<noteq> None
         \<longleftrightarrow> current_user ''role'' = Some (PStr ''admin'')"
  using assms unfolding format_row_def Let_def
  by (auto simp: bind_Inr_iff subscript_def split: option.splits if_splits)

lemma format_rows_loaded:
  assumes "\<forall>r\<in>set rows. loaded r" "current_user ''role'' = Some role"
  shows "\<exists>items. format_rows E current_user rows = Inr items \<and> length items = length rows"
  using assms(1)
proof (induction rows)
  case Nil
  then show ?case by simp
next
  case (Cons r rows)
  then obtain items where i: "format_rows E current_user rows = Inr items"
    "length items = length rows" by auto
  obtain kvs where k: "format_row E current_user r = Inr (JObj kvs)"
    using format_row_loaded [of r current_user role E] assms(2) Cons.prems by auto
  show ?case by (simp add: i k bind_def)
qed

lemma format_rows_cost:
  "format_rows E current_user rows = Inr items \<Longrightarrow> item \<in> set items
   \<Longrightarrow> json_member item ''cost_micros'' \<noteq> None
       \<longleftrightarrow> current_user ''role'' = Some (PStr ''admin'')"
proof (induction rows arbitrary: items)
  case Nil
  then show ?case by simp
next
  case (Cons r rows)
  from Cons.prems(1) obtain i rest where x: "format_row E current_user r = Inr i"
    "format_rows E current_user rows = Inr rest" "items = i # rest"
    by (auto simp: bind_Inr_iff)
  show ?case
  proof (cases "item = i")
    case True
    then show ?thesis using format_row_cost [OF x(1)] by simp
  next
    case False
    then have "item \<in> set rest" using Cons.prems(2) x(3) by simp
    then show ?thesis using Cons.IH [OF x(2)] by simp
  qed
qed

lemma get_metrics_data_empty:
  assumes "current_user ''username'' = Some un"
    "fst (load_metrics_optimized E start_date end_date sort_by sort_desc (max 1 page)
            (min page_size MAX_RECORDS_PER_REQUEST)) = []"
  shows "get_metrics_data E start_date end_date sort_by sort_desc page page_size current_user
         = Response (JObj [(''data'', JArr []), (''total'', JInt 0), (''page'', JInt (max 1 page)),
                           (''page_size'', JInt (min page_size MAX_RECORDS_PER_REQUEST)),
                           (''total_pages'', JInt 0),
                           (''message'', JStr ''Nenhum dado encontrado'')])"
  using assms
  by (cases "load_metrics_optimized E start_date end_date sort_by sort_desc (max 1 page)
            (min page_size MAX_RECORDS_PER_REQUEST)")
     (simp add: get_metrics_data_def get_metrics_data_body_def Let_def subscript_def bind_def)

lemma get_metrics_data_page:
  assumes "current_user ''username'' = Some un"
    "load_metrics_optimized E start_date end_date sort_by sort_desc (max 1 page)
            (min page_size MAX_RECORDS_PER_REQUEST) = (data, n)"
    "data \<noteq> []" "format_rows E current_user data = Inr items"
    "min page_size MAX_RECORDS_PER_REQUEST \<noteq> 0"
  shows "get_metrics_data E start_date end_date sort_by sort_desc page page_size current_user
         = Response (JObj [(''data'', JArr items), (''total'', JInt n),
                           (''page'', JInt (max 1 page)),
                           (''page_size'', JInt (min page_size MAX_RECORDS_PER_REQUEST)),
                           (''total_pages'',
                            JInt ((n + min page_size MAX_RECORDS_PER_REQUEST - 1)
                                  div min page_size MAX_RECORDS_PER_REQUEST)),
                           (''showing'', JInt (int (length items)))])"
  using assms
  by (simp add: get_metrics_data_def get_metrics_data_body_def Let_def subscript_def bind_def
      floordiv_def)

lemma py_slice_zero_width: "py_slice xs s s = []"
  by (simp add: py_slice_def)

lemma py_slice_beyond: "int (length xs) \<le> s \<Longrightarrow> py_slice xs s e = []"
  by (auto simp: py_slice_def slice_index_def Let_def min_def max_def)

lemma data_page:
  assumes "metrics_csv E = Some rows" "filtered_metrics rows start_date end_date = Inr all"
    "current_user ''username'' = Some un" "current_user ''role'' = Some role"
  shows "\<exists>items.
     length items = length (py_slice (sort_data E all sort_by sort_desc)
                              ((max 1 page - 1) * min page_size 1000)
                              ((max 1 page - 1) * min page_size 1000 + min page_size 1000))
     \<and> (items \<noteq> [] \<longrightarrow> format_rows E current_user
                (py_slice (sort_data E all sort_by sort_desc)
                              ((max 1 page - 1) * min page_size 1000)
                              ((max 1 page - 1) * min page_size 1000 + min page_size 1000))
              = Inr items)
     \<and> get_metrics_data E start_date end_date sort_by sort_desc page page_size current_user
       = Response (JObj
           (if items = []
            then [(''data'', JArr []), (''total'', JInt 0), (''page'', JInt (max 1 page)),
                  (''page_size'', JInt (min page_size 1000)), (''total_pages'', JInt 0),
                  (''message'', JStr ''Nenhum dado encontrado'')]
            else [(''data'', JArr items), (''total'', JInt (int (length all))),
                  (''page'', JInt (max 1 page)), (''page_size'', JInt (min page_size 1000)),
                  (''total_pages'',
                   JInt ((int (length all) + min page_size 1000 - 1) div min page_size 1000)),
                  (''showing'', JInt (int (length items)))]))"
proof -
  define ps where "ps = min page_size 1000"
  define p where "p = max 1 page"
  define data where "data = py_slice (sort_data E all sort_by sort_desc)
                              ((p - 1) * ps) ((p - 1) * ps + ps)"
  have l: "load_metrics_optimized E start_date end_date sort_by sort_desc (max 1 page)
             (min page_size MAX_RECORDS_PER_REQUEST) = (data, int (length all))"
    unfolding data_def p_def ps_def MAX_RECORDS_PER_REQUEST_def
    by (rule load_metrics_optimized_eq [OF assms(1,2)])
  show ?thesis
  proof (cases "data = []")
    case True
    have "get_metrics_data E start_date end_date sort_by sort_desc page page_size current_user
         = Response (JObj [(''data'', JArr []), (''total'', JInt 0), (''page'', JInt (max 1 page)),
                           (''page_size'', JInt (min page_size MAX_RECORDS_PER_REQUEST)),
                           (''total_pages'', JInt 0),
                           (''message'', JStr ''Nenhum dado encontrado'')])"
      by (rule get_metrics_data_empty [where current_user = current_user and un = un])
         (simp_all add: l True assms(3))
    then show ?thesis
      using True unfolding data_def p_def ps_def MAX_RECORDS_PER_REQUEST_def
      by (intro exI [of _ "[]"]) simp
  next
    case False
    have sub: "\<forall>r\<in>set data. loaded r"
      using set_py_slice filtered_metrics_loaded [OF assms(2)]
      unfolding data_def by fastforce
    obtain items where i: "format_rows E current_user data = Inr items"
      "length items = length data"
      using format_rows_loaded [of data current_user role E] sub assms(4) by blast
    have nz: "min page_size MAX_RECORDS_PER_REQUEST \<noteq> 0"
      using False py_slice_zero_width [of "sort_data E all sort_by sort_desc" "(p - 1) * ps"]
      unfolding data_def ps_def MAX_RECORDS_PER_REQUEST_def by auto
    have ne: "items \<noteq> []" using i(2) False by auto
    have "get_metrics_data E start_date end_date sort_by sort_desc page page_size current_user
         = Response (JObj [(''data'', JArr items), (''total'', JInt (int (length all))),
                           (''page'', JInt (max 1 page)),
                           (''page_size'', JInt (min page_size MAX_RECORDS_PER_REQUEST)),
                           (''total_pages'',
                            JInt ((int (length all) + min page_size MAX_RECORDS_PER_REQUEST - 1)
                                  div min page_size MAX_RECORDS_PER_REQUEST)),
                           (''showing'', JInt (int (length items)))])"
      by (rule get_metrics_data_page [where current_user = current_user and un = un
            and data = data])
         (simp_all add: l False i(1) nz assms(3))
    then show ?thesis
      using ne i unfolding data_def p_def ps_def MAX_RECORDS_PER_REQUEST_def
      by (intro exI [of _ items]) simp
  qed
qed


lemma process_row_day:
  assumes "strptime_ymd s = Inr d"
  shows "process_row None None (day_row s) = Inr (Some (day_loaded s d))"
  unfolding process_row_Some_iff
  by (intro exI [of _ "PStr s"] exI [of _ d] exI [of _ 0])
     (simp add: day_row_def day_loaded_def assms in_range_def dict_get_def
        normalize_num_zero_text)

lemma filtered_one_day:
  assumes "strptime_ymd s = Inr d"
  shows "filtered_metrics [day_row s] None None = Inr [day_loaded s d]"
  by (simp add: filtered_metrics_def parse_bound_def bind_def process_row_day [OF assms])

lemma filtered_two_days:
  assumes "strptime_ymd s = Inr d" "strptime_ymd s' = Inr d'"
  shows "filtered_metrics [day_row s, day_row s'] None None
         = Inr [day_loaded s d, day_loaded s' d']"
  by (simp add: filtered_metrics_def parse_bound_def bind_def
      process_row_day [OF assms(1)] process_row_day [OF assms(2)])

lemma format_br_zero: "format_br (PFloat 0) = Inr ''0,00''"
  by (simp add: format_br_def eq_zero_def)

lemma format_row_day:
  assumes "current_user ''role'' = Some role"
  shows "format_row E current_user (day_loaded s d)
         = Inr (JObj (day_item (strftime_ymd d)
                      @ (if role = PStr ''admin'' then [(''cost_micros'', JStr ''0,00'')] else [])))"
  unfolding format_row_def Let_def
  by (simp add: day_loaded_def day_item_def dict_get_def format_br_zero bind_def py_str_def
      py_strftime_def subscript_def assms)

lemma date_key_day: "date_key (day_loaded s d) = d"
  by (simp add: date_key_def day_loaded_def dict_get_def)

lemma strftime_2024_01_01: "strftime_ymd (2024, 1, 1) = ''2024-01-01''"
  by code_simp

lemma strptime_2024_01_02: "strptime_ymd ''2024-01-02'' = Inr (2024, 1, 2)"
  by code_simp

lemma sort_two_days:
  "sort_data E [day_loaded ''2024-01-01'' (2024, 1, 1), day_loaded ''2024-01-02'' (2024, 1, 2)]
     ''date'' False
   = [day_loaded ''2024-01-01'' (2024, 1, 1), day_loaded ''2024-01-02'' (2024, 1, 2)]"
  by (simp add: sort_data_def py_sort_def date_key_day)


section \<open>Pagination (C3)\<close>

text \<open>
  C3, as amended. For a caller with a name and a role, a readable file whose filtered rows
  number \<open>total\<close>, and a request with \<open>page_size\<close> at least \<open>1\<close> (\<open>page\<close> clamped to at
  least \<open>1\<close>, \<open>page_size\<close> to at most \<open>1000\<close>): \<^verbatim>\<open>/data\<close> answers without an error, the
  number of items is \<open>min(page_size, max(0, total - (page-1)*page_size))\<close>, and when the page
  holds an item \<^verbatim>\<open>total_pages\<close> is \<open>ceil(total / page_size)\<close> and \<^verbatim>\<open>total\<close> is
  \<open>total\<close>; when the page is empty both are reported as \<open>0\<close>.
\<close>

theorem pagination:
  "metrics_csv E = Some rows \<and> filtered_metrics rows start_date end_date = Inr all
   \<and> current_user ''username'' = Some un \<and> current_user ''role'' = Some role
   \<and> 1 \<le> page_size
   \<longrightarrow> (\<exists>j items.
         get_metrics_data E start_date end_date sort_by sort_desc page page_size current_user
           = Response j
         \<and> json_member j ''data'' = Some (JArr items)
         \<and> int (length items)
           = min (min page_size 1000)
               (max 0 (int (length all) - (max 1 page - 1) * min page_size 1000))
         \<and> json_member j ''total_pages''
           = Some (JInt (if items = [] then 0
                         else \<lceil>rat_of_int (int (length all)) / rat_of_int (min page_size 1000)\<rceil>))
         \<and> json_member j ''total''
           = Some (JInt (if items = [] then 0 else int (length all))))"
proof (intro impI, elim conjE)
  assume a: "metrics_csv E = Some rows" "filtered_metrics rows start_date end_date = Inr all"
    "current_user ''username'' = Some un" "current_user ''role'' = Some role"
    and ps: "1 \<le> page_size"
  define ps' where "ps' = min page_size 1000"
  have pos: "0 < ps'" using ps by (simp add: ps'_def)
  have s: "0 \<le> (max 1 page - 1) * ps'" using pos by simp
  obtain items where i:
    "length items = length (py_slice (sort_data E all sort_by sort_desc)
                              ((max 1 page - 1) * ps') ((max 1 page - 1) * ps' + ps'))"
    "get_metrics_data E start_date end_date sort_by sort_desc page page_size current_user
       = Response (JObj
           (if items = []
            then [(''data'', JArr []), (''total'', JInt 0), (''page'', JInt (max 1 page)),
                  (''page_size'', JInt ps'), (''total_pages'', JInt 0),
                  (''message'', JStr ''Nenhum dado encontrado'')]
            else [(''data'', JArr items), (''total'', JInt (int (length all))),
                  (''page'', JInt (max 1 page)), (''page_size'', JInt ps'),
                  (''total_pages'', JInt ((int (length all) + ps' - 1) div ps')),
                  (''showing'', JInt (int (length items)))]))"
    using data_page [OF a, of sort_by sort_desc page page_size] unfolding ps'_def by blast
  have len: "int (length items) = min ps' (max 0 (int (length all) - (max 1 page - 1) * ps'))"
    using i(1) length_py_slice_page [OF s, of ps' "sort_data E all sort_by sort_desc"] pos
    by simp
  have c: "(int (length all) + ps' - 1) div ps'
           = \<lceil>rat_of_int (int (length all)) / rat_of_int ps'\<rceil>"
    using neg_div [OF pos, of "int (length all)"]
      ceiling_divide_eq_div [of "int (length all)" ps', where ?'a = rat]
    by (simp only:)
  define j where "j = JObj
           (if items = []
            then [(''data'', JArr []), (''total'', JInt 0), (''page'', JInt (max 1 page)),
                  (''page_size'', JInt ps'), (''total_pages'', JInt 0),
                  (''message'', JStr ''Nenhum dado encontrado'')]
            else [(''data'', JArr items), (''total'', JInt (int (length all))),
                  (''page'', JInt (max 1 page)), (''page_size'', JInt ps'),
                  (''total_pages'', JInt ((int (length all) + ps' - 1) div ps')),
                  (''showing'', JInt (int (length items)))])"
  have 1: "get_metrics_data E start_date end_date sort_by sort_desc page page_size current_user
           = Response j"
    using i(2) by (simp only: j_def)
  have 2: "json_member j ''data'' = Some (JArr items)" by (simp add: j_def)
  have 3: "json_member j ''total_pages''
           = Some (JInt (if items = [] then 0
                         else \<lceil>rat_of_int (int (length all)) / rat_of_int ps'\<rceil>))"
    unfolding c [symmetric] by (simp add: j_def)
  have 4: "json_member j ''total'' = Some (JInt (if items = [] then 0 else int (length all)))"
    by (simp add: j_def)
  show "\<exists>j items.
         get_metrics_data E start_date end_date sort_by sort_desc page page_size current_user
           = Response j
         \<and> json_member j ''data'' = Some (JArr items)
         \<and> int (length items)
           = min (min page_size 1000)
               (max 0 (int (length all) - (max 1 page - 1) * min page_size 1000))
         \<and> json_member j ''total_pages''
           = Some (JInt (if items = [] then 0
                         else \<lceil>rat_of_int (int (length all)) / rat_of_int (min page_size 1000)\<rceil>))
         \<and> json_member j ''total''
           = Some (JInt (if items = [] then 0 else int (length all)))"
    unfolding ps'_def [symmetric]
    by (intro exI [of _ j] exI [of _ items] conjI) (fact 1 2 len 3 4)+
qed

theorem pagination_witness:
  "\<exists>j items.
     get_metrics_data (test_env [day_row ''2024-01-01'', day_row ''2024-01-02''])
       None None ''date'' False 1 5 (test_user ''viewer'') = Response j
     \<and> json_member j ''data'' = Some (JArr items) \<and> length items = 2
     \<and> json_member j ''total_pages'' = Some (JInt 1)
     \<and> json_member j ''total'' = Some (JInt 2)"
proof -
  let ?E = "test_env [day_row ''2024-01-01'', day_row ''2024-01-02'']"
  have f: "filtered_metrics [day_row ''2024-01-01'', day_row ''2024-01-02''] None None
           = Inr [day_loaded ''2024-01-01'' (2024, 1, 1), day_loaded ''2024-01-02'' (2024, 1, 2)]"
    by (rule filtered_two_days) (simp_all add: strptime_2024_01_01 strptime_2024_01_02)
  have c: "\<lceil>(2 :: rat) / 5\<rceil> = 1" by (simp add: ceiling_eq_iff)
  obtain j items where r:
    "get_metrics_data ?E None None ''date'' False 1 5 (test_user ''viewer'') = Response j"
    "json_member j ''data'' = Some (JArr items)"
    "int (length items) = min (min 5 1000) (max 0 (int 2 - (max 1 1 - 1) * min 5 1000))"
    "json_member j ''total_pages''
       = Some (JInt (if items = [] then 0 else \<lceil>rat_of_int (int 2) / rat_of_int (min 5 1000)\<rceil>))"
    "json_member j ''total'' = Some (JInt (if items = [] then 0 else int 2))"
    using pagination [of ?E "[day_row ''2024-01-01'', day_row ''2024-01-02'']" None None
        "[day_loaded ''2024-01-01'' (2024, 1, 1), day_loaded ''2024-01-02'' (2024, 1, 2)]"
        "test_user ''viewer''" "PStr ''ana''" "PStr ''viewer''" 5 "''date''" False 1] f
    by (auto simp: test_env_def test_user_def)
  have l: "length items = 2" using r(3) by simp
  then have "items \<noteq> []" by auto
  then show ?thesis using r l c by (intro exI [of _ j] exI [of _ items]) simp
qed


text \<open>
  C3 as stated fails on \<^verbatim>\<open>total_pages\<close>: with one filtered row, page 2 of size 5 starts
  beyond the end, the response reports \<^verbatim>\<open>total_pages = 0\<close>, and \<open>ceil(1 / 5) = 1\<close>.
\<close>

theorem total_pages_zero_beyond_end:
  "get_metrics_data (test_env [day_row ''2024-01-01'']) None None ''date'' False 2 5
     (test_user ''viewer'')
   = Response (JObj [(''data'', JArr []), (''total'', JInt 0), (''page'', JInt 2),
                     (''page_size'', JInt 5), (''total_pages'', JInt 0),
                     (''message'', JStr ''Nenhum dado encontrado'')])
   \<and> filtered_metrics [day_row ''2024-01-01''] None None
     = Inr [day_loaded ''2024-01-01'' (2024, 1, 1)]
   \<and> \<lceil>(1 :: rat) / 5\<rceil> = (1 :: int)"
proof -
  let ?E = "test_env [day_row ''2024-01-01'']"
  have f: "filtered_metrics [day_row ''2024-01-01''] None None
           = Inr [day_loaded ''2024-01-01'' (2024, 1, 1)]"
    by (rule filtered_one_day) (simp add: strptime_2024_01_01)
  have e: "metrics_csv ?E = Some [day_row ''2024-01-01'']" by (simp add: test_env_def)
  have m: "min 5 MAX_RECORDS_PER_REQUEST = 5" by (simp add: MAX_RECORDS_PER_REQUEST_def)
  have l: "fst (load_metrics_optimized ?E None None ''date'' False 2 5) = []"
    unfolding load_metrics_optimized_eq [OF e f]
    by (simp add: py_slice_beyond)
  have "get_metrics_data ?E None None ''date'' False 2 5 (test_user ''viewer'')
        = Response (JObj [(''data'', JArr []), (''total'', JInt 0), (''page'', JInt (max 1 2)),
                          (''page_size'', JInt (min 5 MAX_RECORDS_PER_REQUEST)),
                          (''total_pages'', JInt 0),
                          (''message'', JStr ''Nenhum dado encontrado'')])"
    by (rule get_metrics_data_empty [where un = "PStr ''ana''"])
       (simp_all add: test_user_def m l)
  moreover have "\<lceil>(1 :: rat) / 5\<rceil> = (1 :: int)" by (simp add: ceiling_eq_iff)
  ultimately show ?thesis using f by (simp add: MAX_RECORDS_PER_REQUEST_def)
qed

section \<open>A page beyond the last one (C9)\<close>

lemma load_zero_size:
  "fst (load_metrics_optimized E start_date end_date sort_by sort_desc page 0) = []"
  by (simp add: load_metrics_optimized_def Let_def py_slice_zero_width
      split: option.splits sum.splits)

lemma load_beyond:
  assumes "metrics_csv E = Some rows" "filtered_metrics rows start_date end_date = Inr all"
    "int (length all) \<le> (page - 1) * page_size"
  shows "fst (load_metrics_optimized E start_date end_date sort_by sort_desc page page_size) = []"
  unfolding load_metrics_optimized_eq [OF assms(1,2)]
  using assms(3) by (simp add: py_slice_beyond)

text \<open>
  C9. When the filtered rows are not empty and the slice of the requested page is empty,
  \<^verbatim>\<open>/data\<close> answers with an ordinary response that reports \<^verbatim>\<open>total = 0\<close> and
  \<^verbatim>\<open>total_pages = 0\<close> with a \<^verbatim>\<open>message\<close> field, while the true filtered total is not
  \<open>0\<close>; and the slice is empty whenever the page starts at or beyond the end of the rows.
\<close>

theorem page_beyond_end:
  "(current_user ''username'' = Some un \<and> metrics_csv E = Some rows
      \<and> filtered_metrics rows start_date end_date = Inr all \<and> all \<noteq> []
      \<and> fst (load_metrics_optimized E start_date end_date sort_by sort_desc (max 1 page)
               (min page_size 1000)) = []
    \<longrightarrow> get_metrics_data E start_date end_date sort_by sort_desc page page_size current_user
          = Response (JObj [(''data'', JArr []), (''total'', JInt 0),
                            (''page'', JInt (max 1 page)),
                            (''page_size'', JInt (min page_size 1000)),
                            (''total_pages'', JInt 0),
                            (''message'', JStr ''Nenhum dado encontrado'')])
        \<and> int (length all) \<noteq> 0)
   \<and> (metrics_csv E = Some rows \<and> filtered_metrics rows start_date end_date = Inr all
      \<and> int (length all) \<le> (max 1 page - 1) * min page_size 1000
    \<longrightarrow> fst (load_metrics_optimized E start_date end_date sort_by sort_desc (max 1 page)
               (min page_size 1000)) = [])"
proof (intro conjI impI; elim conjE)
  assume a: "current_user ''username'' = Some un"
    and l: "fst (load_metrics_optimized E start_date end_date sort_by sort_desc (max 1 page)
               (min page_size 1000)) = []"
  have "get_metrics_data E start_date end_date sort_by sort_desc page page_size current_user
         = Response (JObj [(''data'', JArr []), (''total'', JInt 0), (''page'', JInt (max 1 page)),
                           (''page_size'', JInt (min page_size MAX_RECORDS_PER_REQUEST)),
                           (''total_pages'', JInt 0),
                           (''message'', JStr ''Nenhum dado encontrado'')])"
    by (rule get_metrics_data_empty [where current_user = current_user and un = un])
       (simp_all add: a l MAX_RECORDS_PER_REQUEST_def)
  then show "get_metrics_data E start_date end_date sort_by sort_desc page page_size current_user
          = Response (JObj [(''data'', JArr []), (''total'', JInt 0),
                            (''page'', JInt (max 1 page)),
                            (''page_size'', JInt (min page_size 1000)),
                            (''total_pages'', JInt 0),
                            (''message'', JStr ''Nenhum dado encontrado'')])"
    by (simp add: MAX_RECORDS_PER_REQUEST_def)
next
  assume "all \<noteq> []"
  then show "int (length all) \<noteq> 0" by simp
next
  assume "metrics_csv E = Some rows" "filtered_metrics rows start_date end_date = Inr all"
    "int (length all) \<le> (max 1 page - 1) * min page_size 1000"
  then show "fst (load_metrics_optimized E start_date end_date sort_by sort_desc (max 1 page)
               (min page_size 1000)) = []"
    by (rule load_beyond)
qed

theorem page_beyond_end_witness:
  "get_metrics_data (test_env [day_row ''2024-01-01'', day_row ''2024-01-02''])
     None None ''date'' True 3 1 (test_user ''admin'')
   = Response (JObj [(''data'', JArr []), (''total'', JInt 0), (''page'', JInt 3),
                     (''page_size'', JInt 1), (''total_pages'', JInt 0),
                     (''message'', JStr ''Nenhum dado encontrado'')])"
proof -
  let ?rows = "[day_row ''2024-01-01'', day_row ''2024-01-02'']"
  let ?all = "[day_loaded ''2024-01-01'' (2024, 1, 1), day_loaded ''2024-01-02'' (2024, 1, 2)]"
  have f: "filtered_metrics ?rows None None = Inr ?all"
    by (rule filtered_two_days) (simp_all add: strptime_2024_01_01 strptime_2024_01_02)
  have e: "metrics_csv (test_env ?rows) = Some ?rows" by (simp add: test_env_def)
  have u: "test_user ''admin'' ''username'' = Some (PStr ''ana'')" by (simp add: test_user_def)
  note t = page_beyond_end [of "test_user ''admin''" "PStr ''ana''" "test_env ?rows" ?rows
      None None ?all "''date''" True 3 1]
  have "fst (load_metrics_optimized (test_env ?rows) None None ''date'' True (max 1 3)
               (min 1 1000)) = []"
    using t e f by simp
  then show ?thesis using t e f u by simp
qed

section \<open>A page size of zero or less (C10)\<close>

lemma strptime_2024_01_03: "strptime_ymd ''2024-01-03'' = Inr (2024, 1, 3)"
  by code_simp

lemma filtered_three_days:
  assumes "strptime_ymd s = Inr d" "strptime_ymd s' = Inr d'" "strptime_ymd s'' = Inr d''"
  shows "filtered_metrics [day_row s, day_row s', day_row s''] None None
         = Inr [day_loaded s d, day_loaded s' d', day_loaded s'' d'']"
  by (simp add: filtered_metrics_def parse_bound_def bind_def
      process_row_day [OF assms(1)] process_row_day [OF assms(2)] process_row_day [OF assms(3)])

lemma div_neg_page_size:
  fixes m k :: int
  assumes "1 \<le> k" "0 \<le> m"
  shows "(m div (- k) < 0 \<longleftrightarrow> 0 < m) \<and> (m div (- k) = 0 \<longleftrightarrow> m = 0)"
proof -
  have a: "m div (- k) < 0 \<longleftrightarrow> 0 < m"
    using assms(1) by (simp add: neg_imp_zdiv_neg_iff)
  have "m div (- k) \<le> 0"
    using assms by (simp add: div_nonneg_neg_le0)
  then show ?thesis using a assms(2) by auto
qed

text \<open>
  C10, as amended. A \<open>page_size\<close> of at most \<open>0\<close> passes the clamp unchanged. With page 1
  and size \<open>0\<close>, \<^verbatim>\<open>/data\<close> returns the empty page, reported with total \<open>0\<close>. With page 1,
  size \<open>-k\<close> for \<open>k\<close> at least \<open>1\<close> and more than \<open>k\<close> filtered rows, the items are those
  of all the sorted rows but the last \<open>k\<close>, and \<^verbatim>\<open>total_pages\<close> is
  \<open>(total - k - 1) div (-k)\<close>: negative exactly when there are more than \<open>k + 1\<close> rows, and
  \<open>0\<close> when there are exactly \<open>k + 1\<close>.
\<close>

theorem nonpositive_page_size:
  "(page_size \<le> 0 \<longrightarrow> min page_size MAX_RECORDS_PER_REQUEST = page_size)
   \<and> (current_user ''username'' = Some un
      \<longrightarrow> get_metrics_data E start_date end_date sort_by sort_desc 1 0 current_user
          = Response (JObj [(''data'', JArr []), (''total'', JInt 0), (''page'', JInt 1),
                            (''page_size'', JInt 0), (''total_pages'', JInt 0),
                            (''message'', JStr ''Nenhum dado encontrado'')]))
   \<and> (metrics_csv E = Some rows \<and> filtered_metrics rows start_date end_date = Inr all
      \<and> current_user ''username'' = Some un \<and> current_user ''role'' = Some role
      \<and> 1 \<le> k \<and> k < int (length all)
      \<longrightarrow> (\<exists>items.
            format_rows E current_user
              (take (length all - nat k) (sort_data E all sort_by sort_desc)) = Inr items
            \<and> length items = length all - nat k
            \<and> get_metrics_data E start_date end_date sort_by sort_desc 1 (- k) current_user
              = Response (JObj [(''data'', JArr items), (''total'', JInt (int (length all))),
                                (''page'', JInt 1), (''page_size'', JInt (- k)),
                                (''total_pages'', JInt ((int (length all) - k - 1) div (- k))),
                                (''showing'', JInt (int (length items)))]))
          \<and> ((int (length all) - k - 1) div (- k) < 0 \<longleftrightarrow> k + 1 < int (length all))
          \<and> ((int (length all) - k - 1) div (- k) = 0 \<longleftrightarrow> int (length all) = k + 1))"
proof (intro conjI impI; (elim conjE)?)
  assume "page_size \<le> 0"
  then show "min page_size MAX_RECORDS_PER_REQUEST = page_size"
    by (simp add: MAX_RECORDS_PER_REQUEST_def)
next
  assume a: "current_user ''username'' = Some un"
  have "get_metrics_data E start_date end_date sort_by sort_desc 1 0 current_user
         = Response (JObj [(''data'', JArr []), (''total'', JInt 0), (''page'', JInt (max 1 1)),
                           (''page_size'', JInt (min 0 MAX_RECORDS_PER_REQUEST)),
                           (''total_pages'', JInt 0),
                           (''message'', JStr ''Nenhum dado encontrado'')])"
    by (rule get_metrics_data_empty [where current_user = current_user and un = un])
       (simp_all add: a MAX_RECORDS_PER_REQUEST_def load_zero_size)
  then show "get_metrics_data E start_date end_date sort_by sort_desc 1 0 current_user
          = Response (JObj [(''data'', JArr []), (''total'', JInt 0), (''page'', JInt 1),
                            (''page_size'', JInt 0), (''total_pages'', JInt 0),
                            (''message'', JStr ''Nenhum dado encontrado'')])"
    by (simp add: MAX_RECORDS_PER_REQUEST_def)
next
  assume a: "metrics_csv E = Some rows" "filtered_metrics rows start_date end_date = Inr all"
    "current_user ''username'' = Some un" "current_user ''role'' = Some role"
    and k: "1 \<le> k" "k < int (length all)"
  let ?sorted = "sort_data E all sort_by sort_desc"
  have sl: "py_slice ?sorted 0 (- k) = take (length all - nat k) ?sorted"
    using py_slice_prefix [of k ?sorted] k by simp
  have m: "min (- k) 1000 = - k" using k by simp
  obtain items where i:
    "length items = length (py_slice ?sorted ((max 1 1 - 1) * min (- k) 1000)
                              ((max 1 1 - 1) * min (- k) 1000 + min (- k) 1000))"
    "items \<noteq> [] \<longrightarrow> format_rows E current_user
                (py_slice ?sorted ((max 1 1 - 1) * min (- k) 1000)
                              ((max 1 1 - 1) * min (- k) 1000 + min (- k) 1000))
              = Inr items"
    "get_metrics_data E start_date end_date sort_by sort_desc 1 (- k) current_user
       = Response (JObj
           (if items = []
            then [(''data'', JArr []), (''total'', JInt 0), (''page'', JInt (max 1 1)),
                  (''page_size'', JInt (min (- k) 1000)), (''total_pages'', JInt 0),
                  (''message'', JStr ''Nenhum dado encontrado'')]
            else [(''data'', JArr items), (''total'', JInt (int (length all))),
                  (''page'', JInt (max 1 1)), (''page_size'', JInt (min (- k) 1000)),
                  (''total_pages'',
                   JInt ((int (length all) + min (- k) 1000 - 1) div min (- k) 1000)),
                  (''showing'', JInt (int (length items)))]))"
    using data_page [OF a, of sort_by sort_desc 1 "- k"] by blast
  have len: "length items = length all - nat k"
    using i(1) sl by (simp add: m)
  then have ne: "items \<noteq> []" using k by auto
  have fr: "format_rows E current_user (take (length all - nat k) ?sorted) = Inr items"
    using i(2) ne sl by (simp add: m)
  have e: "int (length all) + - k - 1 = int (length all) - k - 1" by simp
  have resp: "get_metrics_data E start_date end_date sort_by sort_desc 1 (- k) current_user
              = Response (JObj [(''data'', JArr items), (''total'', JInt (int (length all))),
                                (''page'', JInt 1), (''page_size'', JInt (- k)),
                                (''total_pages'', JInt ((int (length all) - k - 1) div (- k))),
                                (''showing'', JInt (int (length items)))])"
    using i(3) ne by (simp add: m e)
  show "\<exists>items.
            format_rows E current_user
              (take (length all - nat k) (sort_data E all sort_by sort_desc)) = Inr items
            \<and> length items = length all - nat k
            \<and> get_metrics_data E start_date end_date sort_by sort_desc 1 (- k) current_user
              = Response (JObj [(''data'', JArr items), (''total'', JInt (int (length all))),
                                (''page'', JInt 1), (''page_size'', JInt (- k)),
                                (''total_pages'', JInt ((int (length all) - k - 1) div (- k))),
                                (''showing'', JInt (int (length items)))])"
    using fr len resp by blast
  have nn: "0 \<le> int (length all) - k - 1" using k by simp
  show "(int (length all) - k - 1) div (- k) < 0 \<longleftrightarrow> k + 1 < int (length all)"
    using div_neg_page_size [OF k(1) nn] by auto
  show "(int (length all) - k - 1) div (- k) = 0 \<longleftrightarrow> int (length all) = k + 1"
    using div_neg_page_size [OF k(1) nn] by auto
qed

theorem nonpositive_page_size_witness:
  "(\<exists>items.
      get_metrics_data
        (test_env [day_row ''2024-01-01'', day_row ''2024-01-02'', day_row ''2024-01-03''])
        None None ''date'' False 1 (- 1) (test_user ''viewer'')
      = Response (JObj [(''data'', JArr items), (''total'', JInt 3), (''page'', JInt 1),
                        (''page_size'', JInt (- 1)), (''total_pages'', JInt (- 1)),
                        (''showing'', JInt 2)])
      \<and> length items = 2)
   \<and> get_metrics_data
        (test_env [day_row ''2024-01-01'', day_row ''2024-01-02'', day_row ''2024-01-03''])
        None None ''date'' False 1 0 (test_user ''viewer'')
      = Response (JObj [(''data'', JArr []), (''total'', JInt 0), (''page'', JInt 1),
                        (''page_size'', JInt 0), (''total_pages'', JInt 0),
                        (''message'', JStr ''Nenhum dado encontrado'')])
   \<and> min (- 1) MAX_RECORDS_PER_REQUEST = - 1"
proof -
  let ?rows = "[day_row ''2024-01-01'', day_row ''2024-01-02'', day_row ''2024-01-03'']"
  let ?all = "[day_loaded ''2024-01-01'' (2024, 1, 1), day_loaded ''2024-01-02'' (2024, 1, 2),
               day_loaded ''2024-01-03'' (2024, 1, 3)]"
  have f: "filtered_metrics ?rows None None = Inr ?all"
    by (rule filtered_three_days)
       (simp_all add: strptime_2024_01_01 strptime_2024_01_02 strptime_2024_01_03)
  have e: "metrics_csv (test_env ?rows) = Some ?rows" by (simp add: test_env_def)
  have u: "test_user ''viewer'' ''username'' = Some (PStr ''ana'')"
    "test_user ''viewer'' ''role'' = Some (PStr ''viewer'')"
    by (simp_all add: test_user_def)
  note t = nonpositive_page_size [of "- 1" "test_user ''viewer''" "PStr ''ana''"
      "test_env ?rows" None None "''date''" False ?rows ?all "PStr ''viewer''" 1]
  have a: "\<exists>items.
      get_metrics_data (test_env ?rows) None None ''date'' False 1 (- 1) (test_user ''viewer'')
      = Response (JObj [(''data'', JArr items), (''total'', JInt 3), (''page'', JInt 1),
                        (''page_size'', JInt (- 1)), (''total_pages'', JInt (- 1)),
                        (''showing'', JInt 2)])
      \<and> length items = 2"
    using t e f u by auto
  have b: "get_metrics_data (test_env ?rows) None None ''date'' False 1 0 (test_user ''viewer'')
      = Response (JObj [(''data'', JArr []), (''total'', JInt 0), (''page'', JInt 1),
                        (''page_size'', JInt 0), (''total_pages'', JInt 0),
                        (''message'', JStr ''Nenhum dado encontrado'')])"
    using t u by blast
  have c: "min (- 1) MAX_RECORDS_PER_REQUEST = - 1"
    using t by simp
  show ?thesis using a b c by blast
qed

text \<open>
  C10 as stated fails on the sign of \<^verbatim>\<open>total_pages\<close>: with two filtered rows and
  \<open>page_size = -1\<close> (more than \<open>k = 1\<close> rows), the response holds one item and
  \<^verbatim>\<open>total_pages\<close> is \<open>0 div (-1) = 0\<close>, which is not negative.
\<close>

theorem total_pages_not_negative:
  "get_metrics_data (test_env [day_row ''2024-01-01'', day_row ''2024-01-02''])
     None None ''date'' False 1 (- 1) (test_user ''viewer'')
   = Response (JObj [(''data'', JArr [JObj (day_item ''2024-01-01'')]), (''total'', JInt 2),
                     (''page'', JInt 1), (''page_size'', JInt (- 1)),
                     (''total_pages'', JInt 0), (''showing'', JInt 1)])"
proof -
  let ?rows = "[day_row ''2024-01-01'', day_row ''2024-01-02'']"
  let ?all = "[day_loaded ''2024-01-01'' (2024, 1, 1), day_loaded ''2024-01-02'' (2024, 1, 2)]"
  let ?E = "test_env ?rows"
  have f: "filtered_metrics ?rows None None = Inr ?all"
    by (rule filtered_two_days) (simp_all add: strptime_2024_01_01 strptime_2024_01_02)
  have e: "metrics_csv ?E = Some ?rows" by (simp add: test_env_def)
  have m: "min (- 1) MAX_RECORDS_PER_REQUEST = - 1" "max 1 (1 :: int) = 1"
    by (simp_all add: MAX_RECORDS_PER_REQUEST_def)
  have l: "load_metrics_optimized ?E None None ''date'' False 1 (- 1)
           = ([day_loaded ''2024-01-01'' (2024, 1, 1)], 2)"
    unfolding load_metrics_optimized_eq [OF e f] sort_two_days
    by (simp add: py_slice_def slice_index_def)
  have r: "test_user ''viewer'' ''role'' = Some (PStr ''viewer'')"
    by (simp add: test_user_def)
  have fr: "format_rows ?E (test_user ''viewer'') [day_loaded ''2024-01-01'' (2024, 1, 1)]
            = Inr [JObj (day_item ''2024-01-01'')]"
    using format_row_day [where current_user = "test_user ''viewer''" and E = ?E
        and s = "''2024-01-01''" and d = "(2024, 1, 1)", OF r]
    unfolding strftime_2024_01_01 by (simp add: bind_def)
  have "get_metrics_data ?E None None ''date'' False 1 (- 1) (test_user ''viewer'')
         = Response (JObj [(''data'', JArr [JObj (day_item ''2024-01-01'')]),
                           (''total'', JInt 2), (''page'', JInt (max 1 1)),
                           (''page_size'', JInt (min (- 1) MAX_RECORDS_PER_REQUEST)),
                           (''total_pages'',
                            JInt ((2 + min (- 1) MAX_RECORDS_PER_REQUEST - 1)
                                  div min (- 1) MAX_RECORDS_PER_REQUEST)),
                           (''showing'', JInt (int (length [JObj (day_item ''2024-01-01'')])))])"
  proof (rule get_metrics_data_page [where un = "PStr ''ana''"
          and data = "[day_loaded ''2024-01-01'' (2024, 1, 1)]"])
    show "test_user ''viewer'' ''username'' = Some (PStr ''ana'')"
      by (simp add: test_user_def)
    show "load_metrics_optimized ?E None None ''date'' False (max 1 1)
            (min (- 1) MAX_RECORDS_PER_REQUEST) = ([day_loaded ''2024-01-01'' (2024, 1, 1)], 2)"
      unfolding m by (rule l)
    show "[day_loaded ''2024-01-01'' (2024, 1, 1)] \<noteq> []" by simp
    show "format_rows ?E (test_user ''viewer'') [day_loaded ''2024-01-01'' (2024, 1, 1)]
          = Inr [JObj (day_item ''2024-01-01'')]"
      by (rule fr)
    show "min (- 1) MAX_RECORDS_PER_REQUEST \<noteq> 0" unfolding m by simp
  qed
  then show ?thesis by (simp add: m)
qed

section \<open>Role gating (C6)\<close>

lemma get_available_columns_role:
  assumes "current_user ''role'' = Some role"
  shows "get_available_columns current_user
         = Inr (JObj [(''columns'', JArr
             (if role = PStr ''admin''
              then [column ''account_id'' ''Account ID'', column ''campaign_id'' ''Campaign ID'',
                    column ''cost_micros'' ''Cost (Micros)'', column ''clicks'' ''Clicks'',
                    column ''conversions'' ''Conversions'',
                    column ''impressions'' ''Impressions'',
                    column ''interactions'' ''Interactions'', column ''date'' ''Date'']
              else [column ''account_id'' ''Account ID'', column ''campaign_id'' ''Campaign ID'',
                    column ''clicks'' ''Clicks'', column ''conversions'' ''Conversions'',
                    column ''impressions'' ''Impressions'',
                    column ''interactions'' ''Interactions'', column ''date'' ''Date'']))])"
  by (simp add: get_available_columns_def Let_def subscript_def bind_def assms list_insert_def)

lemma get_available_columns_no_role:
  "current_user ''role'' = None
   \<Longrightarrow> get_available_columns current_user = Inl (KeyError ''role'')"
  by (simp add: get_available_columns_def Let_def subscript_def bind_def)

lemma get_metrics_data_Response:
  assumes "get_metrics_data E start_date end_date sort_by sort_desc page page_size current_user
           = Response j"
  shows "\<exists>items. json_member j ''data'' = Some (JArr items)
           \<and> (items = [] \<or> (\<exists>data. format_rows E current_user data = Inr items))"
proof -
  have b: "get_metrics_data_body E start_date end_date sort_by sort_desc page page_size
             current_user = Inr j"
    using assms by (simp add: get_metrics_data_def split: sum.splits)
  obtain data n where l:
    "load_metrics_optimized E start_date end_date sort_by sort_desc (max 1 page)
       (min page_size MAX_RECORDS_PER_REQUEST) = (data, n)"
    by (cases "load_metrics_optimized E start_date end_date sort_by sort_desc (max 1 page)
       (min page_size MAX_RECORDS_PER_REQUEST)") auto
  show ?thesis
  proof (cases "data = []")
    case True
    then have "json_member j ''data'' = Some (JArr [])"
      using b l by (auto simp: get_metrics_data_body_def Let_def bind_Inr_iff)
    then show ?thesis by blast
  next
    case False
    then obtain items where "format_rows E current_user data = Inr items"
      "json_member j ''data'' = Some (JArr items)"
      using b l by (auto simp: get_metrics_data_body_def Let_def bind_Inr_iff)
    then show ?thesis by blast
  qed
qed

lemma data_one_day:
  "get_metrics_data (test_env [day_row ''2024-01-01'']) None None ''date'' False 1 25
     (test_user role)
   = Response (JObj [(''data'',
                      JArr [JObj (day_item ''2024-01-01''
                                  @ (if PStr role = PStr ''admin''
                                     then [(''cost_micros'', JStr ''0,00'')] else []))]),
                     (''total'', JInt 1), (''page'', JInt 1), (''page_size'', JInt 25),
                     (''total_pages'', JInt 1), (''showing'', JInt 1)])"
proof -
  let ?E = "test_env [day_row ''2024-01-01'']"
  let ?r = "day_loaded ''2024-01-01'' (2024, 1, 1)"
  let ?item = "JObj (day_item ''2024-01-01''
                     @ (if PStr role = PStr ''admin''
                        then [(''cost_micros'', JStr ''0,00'')] else []))"
  have f: "filtered_metrics [day_row ''2024-01-01''] None None = Inr [?r]"
    by (rule filtered_one_day) (simp add: strptime_2024_01_01)
  have e: "metrics_csv ?E = Some [day_row ''2024-01-01'']" by (simp add: test_env_def)
  have m: "min 25 MAX_RECORDS_PER_REQUEST = 25" "max 1 (1 :: int) = 1"
    by (simp_all add: MAX_RECORDS_PER_REQUEST_def)
  have l: "load_metrics_optimized ?E None None ''date'' False 1 25 = ([?r], 1)"
    unfolding load_metrics_optimized_eq [OF e f]
    by (simp add: py_slice_def slice_index_def sort_data_def py_sort_def)
  have r: "test_user role ''role'' = Some (PStr role)"
    by (simp add: test_user_def)
  have fr: "format_rows ?E (test_user role) [?r] = Inr [?item]"
    using format_row_day [where current_user = "test_user role" and E = ?E
        and s = "''2024-01-01''" and d = "(2024, 1, 1)", OF r]
    unfolding strftime_2024_01_01 by (simp add: bind_def)
  have "get_metrics_data ?E None None ''date'' False 1 25 (test_user role)
         = Response (JObj [(''data'', JArr [?item]),
                           (''total'', JInt 1), (''page'', JInt (max 1 1)),
                           (''page_size'', JInt (min 25 MAX_RECORDS_PER_REQUEST)),
                           (''total_pages'',
                            JInt ((1 + min 25 MAX_RECORDS_PER_REQUEST - 1)
                                  div min 25 MAX_RECORDS_PER_REQUEST)),
                           (''showing'', JInt (int (length [?item])))])"
  proof (rule get_metrics_data_page [where un = "PStr ''ana''" and data = "[?r]"])
    show "test_user role ''username'' = Some (PStr ''ana'')"
      by (simp add: test_user_def)
    show "load_metrics_optimized ?E None None ''date'' False (max 1 1)
            (min 25 MAX_RECORDS_PER_REQUEST) = ([?r], 1)"
      unfolding m by (rule l)
    show "[?r] \<noteq> []" by simp
    show "format_rows ?E (test_user role) [?r] = Inr [?item]" by (rule fr)
    show "min 25 MAX_RECORDS_PER_REQUEST \<noteq> 0" unfolding m by simp
  qed
  then show ?thesis unfolding m by simp
qed

text \<open>
  C6. Whenever \<^verbatim>\<open>/columns\<close> answers, its column list holds the key \<^verbatim>\<open>cost_micros\<close>
  exactly when the caller's role is \<^verbatim>\<open>admin\<close>; whenever \<^verbatim>\<open>/data\<close> answers, every item
  of its page holds a \<^verbatim>\<open>cost_micros\<close> member exactly when the caller's role is
  \<^verbatim>\<open>admin\<close>, and for any other role the key is absent from every item.
\<close>

theorem role_gating:
  "(\<forall>j. get_available_columns current_user = Inr j \<longrightarrow>
        (\<exists>cols. json_member j ''columns'' = Some (JArr cols)
           \<and> ((\<exists>c\<in>set cols. json_member c ''key'' = Some (JStr ''cost_micros''))
                \<longleftrightarrow> current_user ''role'' = Some (PStr ''admin''))))
   \<and> (\<forall>j. get_metrics_data E start_date end_date sort_by sort_desc page page_size current_user
           = Response j \<longrightarrow>
        (\<exists>items. json_member j ''data'' = Some (JArr items)
           \<and> (\<forall>item\<in>set items. json_member item ''cost_micros'' \<noteq> None
                 \<longleftrightarrow> current_user ''role'' = Some (PStr ''admin''))))"
proof (intro conjI allI impI)
  fix j
  assume a: "get_available_columns current_user = Inr j"
  then obtain role where r: "current_user ''role'' = Some role"
    using get_available_columns_no_role [of current_user] by (cases "current_user ''role''") auto
  show "\<exists>cols. json_member j ''columns'' = Some (JArr cols)
           \<and> ((\<exists>c\<in>set cols. json_member c ''key'' = Some (JStr ''cost_micros''))
                \<longleftrightarrow> current_user ''role'' = Some (PStr ''admin''))"
    using a unfolding get_available_columns_role [where current_user = current_user, OF r]
    by (cases "role = PStr ''admin''") (auto simp: r column_def)
next
  fix j
  assume "get_metrics_data E start_date end_date sort_by sort_desc page page_size current_user
           = Response j"
  then obtain items where i: "json_member j ''data'' = Some (JArr items)"
    "items = [] \<or> (\<exists>data. format_rows E current_user data = Inr items)"
    using get_metrics_data_Response by blast
  have "\<forall>item\<in>set items. json_member item ''cost_micros'' \<noteq> None
                 \<longleftrightarrow> current_user ''role'' = Some (PStr ''admin'')"
  proof (cases "items = []")
    case True
    then show ?thesis by simp
  next
    case False
    then obtain data where d: "format_rows E current_user data = Inr items"
      using i(2) by blast
    show ?thesis
    proof
      fix item
      assume "item \<in> set items"
      then show "json_member item ''cost_micros'' \<noteq> None
                 \<longleftrightarrow> current_user ''role'' = Some (PStr ''admin'')"
        by (rule format_rows_cost [where current_user = current_user and E = E, OF d])
    qed
  qed
  then show "\<exists>items. json_member j ''data'' = Some (JArr items)
           \<and> (\<forall>item\<in>set items. json_member item ''cost_micros'' \<noteq> None
                 \<longleftrightarrow> current_user ''role'' = Some (PStr ''admin''))"
    using i(1) by blast
qed

theorem role_gating_witness:
  "(\<exists>j cols. get_available_columns (test_user ''admin'') = Inr j
       \<and> json_member j ''columns'' = Some (JArr cols)
       \<and> (\<exists>c\<in>set cols. json_member c ''key'' = Some (JStr ''cost_micros'')))
   \<and> (\<exists>j cols. get_available_columns (test_user ''viewer'') = Inr j
       \<and> json_member j ''columns'' = Some (JArr cols)
       \<and> (\<forall>c\<in>set cols. json_member c ''key'' \<noteq> Some (JStr ''cost_micros'')))
   \<and> (\<exists>j items.
        get_metrics_data (test_env [day_row ''2024-01-01'']) None None ''date'' False 1 25
          (test_user ''admin'') = Response j
        \<and> json_member j ''data'' = Some (JArr items) \<and> items \<noteq> []
        \<and> (\<forall>item\<in>set items. json_member item ''cost_micros'' \<noteq> None))
   \<and> (\<exists>j items.
        get_metrics_data (test_env [day_row ''2024-01-01'']) None None ''date'' False 1 25
          (test_user ''viewer'') = Response j
        \<and> json_member j ''data'' = Some (JArr items) \<and> items \<noteq> []
        \<and> (\<forall>item\<in>set items. json_member item ''cost_micros'' = None))"
proof -
  let ?E = "test_env [day_row ''2024-01-01'']"
  have ra: "test_user ''admin'' ''role'' = Some (PStr ''admin'')"
    and rv: "test_user ''viewer'' ''role'' = Some (PStr ''viewer'')"
    by (simp_all add: test_user_def)
  note ta = role_gating [of "test_user ''admin''" ?E None None "''date''" False 1 25]
  note tv = role_gating [of "test_user ''viewer''" ?E None None "''date''" False 1 25]
  obtain ja where ja: "get_available_columns (test_user ''admin'') = Inr ja"
    using get_available_columns_role [where current_user = "test_user ''admin''", OF ra]
    by blast
  obtain jv where jv: "get_available_columns (test_user ''viewer'') = Inr jv"
    using get_available_columns_role [where current_user = "test_user ''viewer''", OF rv]
    by blast
  have 1: "\<exists>j cols. get_available_columns (test_user ''admin'') = Inr j
       \<and> json_member j ''columns'' = Some (JArr cols)
       \<and> (\<exists>c\<in>set cols. json_member c ''key'' = Some (JStr ''cost_micros''))"
    using ta ja ra by blast
  have 2: "\<exists>j cols. get_available_columns (test_user ''viewer'') = Inr j
       \<and> json_member j ''columns'' = Some (JArr cols)
       \<and> (\<forall>c\<in>set cols. json_member c ''key'' \<noteq> Some (JStr ''cost_micros''))"
  proof -
    obtain cols where c: "json_member jv ''columns'' = Some (JArr cols)"
      "(\<exists>c\<in>set cols. json_member c ''key'' = Some (JStr ''cost_micros''))
         \<longleftrightarrow> test_user ''viewer'' ''role'' = Some (PStr ''admin'')"
      using tv jv by blast
    have "\<forall>c\<in>set cols. json_member c ''key'' \<noteq> Some (JStr ''cost_micros'')"
      using c(2) rv by auto
    then show ?thesis using jv c(1) by blast
  qed
  obtain da where da: "get_metrics_data ?E None None ''date'' False 1 25 (test_user ''admin'')
                       = Response da"
    "json_member da ''data''
       = Some (JArr [JObj (day_item ''2024-01-01'' @ [(''cost_micros'', JStr ''0,00'')])])"
    using data_one_day [of "''admin''"] by simp
  obtain dv where dv: "get_metrics_data ?E None None ''date'' False 1 25 (test_user ''viewer'')
                       = Response dv"
    "json_member dv ''data'' = Some (JArr [JObj (day_item ''2024-01-01'')])"
    using data_one_day [of "''viewer''"] by simp
  have 3: "\<exists>j items.
        get_metrics_data ?E None None ''date'' False 1 25 (test_user ''admin'') = Response j
        \<and> json_member j ''data'' = Some (JArr items) \<and> items \<noteq> []
        \<and> (\<forall>item\<in>set items. json_member item ''cost_micros'' \<noteq> None)"
  proof -
    obtain items where i: "json_member da ''data'' = Some (JArr items)"
      "\<forall>item\<in>set items. json_member item ''cost_micros'' \<noteq> None
         \<longleftrightarrow> test_user ''admin'' ''role'' = Some (PStr ''admin'')"
      using ta da(1) by blast
    have "items \<noteq> []" using i(1) da(2) by auto
    then show ?thesis using da(1) i ra by blast
  qed
  have 4: "\<exists>j items.
        get_metrics_data ?E None None ''date'' False 1 25 (test_user ''viewer'') = Response j
        \<and> json_member j ''data'' = Some (JArr items) \<and> items \<noteq> []
        \<and> (\<forall>item\<in>set items. json_member item ''cost_micros'' = None)"
  proof -
    obtain items where i: "json_member dv ''data'' = Some (JArr items)"
      "\<forall>item\<in>set items. json_member item ''cost_micros'' \<noteq> None
         \<longleftrightarrow> test_user ''viewer'' ''role'' = Some (PStr ''admin'')"
      using tv dv(1) by blast
    have "items \<noteq> []" using i(1) dv(2) by auto
    moreover have "\<forall>item\<in>set items. json_member item ''cost_micros'' = None"
      using i(2) rv by auto
    ultimately show ?thesis using dv(1) i(1) by blast
  qed
  show ?thesis using 1 2 3 4 by (intro conjI)
qed

section \<open>Statistics over a sample (C7)\<close>

lemma py_slice_take: "py_slice xs 0 (int n) = take n xs"
  by (auto simp: py_slice_def slice_index_def Let_def min_def)

lemma num_key_loaded:
  assumes "loaded r" "f \<in> set numeric_fields"
  shows "dict_get r f (PInt 0) = PFloat (num_key f r)"
proof -
  obtain q where "r f = Some (PFloat q)" using assms by (auto simp: loaded_def)
  then show ?thesis by (simp add: dict_get_def num_key_def)
qed

lemma py_sum_loaded:
  assumes "\<forall>r\<in>set rows. loaded r" "f \<in> set numeric_fields"
  shows "py_sum acc (map (\<lambda>row. dict_get row f (PInt 0)) rows)
         = Inr (acc + sum_list (map (num_key f) rows))"
  using assms(1)
proof (induction rows arbitrary: acc)
  case Nil
  then show ?case by simp
next
  case (Cons r rows)
  then have "dict_get r f (PInt 0) = PFloat (num_key f r)"
    using num_key_loaded assms(2) by simp
  then show ?case using Cons by (simp add: add.assoc)
qed

lemma str_nat_zero: "str_nat 0 = ''0''"
  by code_simp

lemma group3_zero: "group3 ''0'' = ''0''"
  by code_simp

lemma fmt_fixed_zero: "fmt_fixed 0 0 = ''0''"
  by (simp add: fmt_fixed_def round_half_even_def Let_def str_nat_zero group3_zero)


lemma digit_char_0_5: "digit_char 0 = CHR ''0''" "digit_char 5 = CHR ''5''"
  by code_simp+

lemma str_int_5000: "str_int 5000 = ''5000''"
  by (simp add: str_int_def str_nat.simps [of 5000] str_nat.simps [of 500]
      str_nat.simps [of 50] str_nat.simps [of 5] digit_char_0_5)

lemma get_basic_stats_empty:
  assumes "current_user ''username'' = Some un"
    "fst (load_metrics_optimized E start_date end_date ''date'' False 1 5000) = []"
  shows "get_basic_stats E start_date end_date current_user = Response (JObj zero_stats)"
  using assms
  by (cases "load_metrics_optimized E start_date end_date ''date'' False 1 5000")
     (simp add: get_basic_stats_def get_basic_stats_body_def subscript_def bind_def)

lemma get_basic_stats_sample:
  assumes "current_user ''username'' = Some un"
    "load_metrics_optimized E start_date end_date ''date'' False 1 5000 = (sample_data, n)"
    "sample_data \<noteq> []" "\<forall>r\<in>set sample_data. loaded r"
  shows "get_basic_stats E start_date end_date current_user
         = Response (JObj
             [(''total_records'', JInt n),
              (''total_clicks'',
               JStr (fmt_fixed 0 (sum_list (map (num_key ''clicks'') sample_data)))),
              (''total_conversions'',
               JStr (fmt_fixed 0 (sum_list (map (num_key ''conversions'') sample_data)))),
              (''total_impressions'',
               JStr (fmt_fixed 0 (sum_list (map (num_key ''impressions'') sample_data)))),
              (''note'',
               if int (length sample_data) < n
               then JStr (''Calculado com amostra de ''
                          @ str_int (int (length sample_data)) @ '' registros'')
               else JNull)])"
proof -
  have s: "py_sum 0 (map (\<lambda>row. dict_get row ''clicks'' (PInt 0)) sample_data)
           = Inr (sum_list (map (num_key ''clicks'') sample_data))"
    "py_sum 0 (map (\<lambda>row. dict_get row ''conversions'' (PInt 0)) sample_data)
           = Inr (sum_list (map (num_key ''conversions'') sample_data))"
    "py_sum 0 (map (\<lambda>row. dict_get row ''impressions'' (PInt 0)) sample_data)
           = Inr (sum_list (map (num_key ''impressions'') sample_data))"
    using py_sum_loaded [OF assms(4), of _ 0] by (simp_all add: numeric_fields_def)
  show ?thesis
    using assms(1-3)
    by (simp add: get_basic_stats_def get_basic_stats_body_def subscript_def bind_def s)
qed

lemma kept_rows_replicate_day:
  assumes "strptime_ymd s = Inr d"
  shows "kept_rows None None (replicate n (day_row s)) = replicate n (day_loaded s d)"
  by (induction n) (simp_all add: kept_rows_Cons process_row_day [OF assms])

lemma filtered_replicate_day:
  assumes "strptime_ymd s = Inr d"
  shows "filtered_metrics (replicate n (day_row s)) None None
         = Inr (replicate n (day_loaded s d))"
proof -
  have "\<forall>row\<in>set (replicate n (day_row s)). \<forall>e. process_row None None row \<noteq> Inl e"
    by (auto simp: process_row_day [OF assms])
  then have "load_rows None None (replicate n (day_row s)) []
             = Inr ([] @ kept_rows None None (replicate n (day_row s)))"
    by (rule load_rows_no_abort)
  then show ?thesis
    by (simp add: filtered_metrics_def parse_bound_def bind_def
        kept_rows_replicate_day [OF assms])
qed

lemma num_key_day:
  "f \<in> set numeric_fields \<Longrightarrow> num_key f (day_loaded s d) = 0"
  by (auto simp: numeric_fields_def num_key_def day_loaded_def dict_get_def)

lemma sum_list_zero: "\<forall>x\<in>set xs. f x = (0 :: rat) \<Longrightarrow> sum_list (map f xs) = 0"
  by (induction xs) simp_all

text \<open>
  C7. For a readable file and a caller with a name, \<^verbatim>\<open>/stats\<close> answers with
  \<^verbatim>\<open>total_records\<close> equal to the number of filtered rows, and with the three sums taken
  over the first \<open>min(5000, total)\<close> filtered rows in ascending order of date; when
  there are more than \<open>5000\<close> filtered rows the response carries a note that names the
  \<open>5000\<close> records of the sample; the response carries no \<^verbatim>\<open>error\<close> field.
\<close>

theorem stats_sample:
  "metrics_csv E = Some rows \<and> filtered_metrics rows start_date end_date = Inr all
   \<and> current_user ''username'' = Some un
   \<longrightarrow> (\<exists>j. get_basic_stats E start_date end_date current_user = Response j
         \<and> json_member j ''total_records'' = Some (JInt (int (length all)))
         \<and> json_member j ''total_clicks''
           = Some (JStr (fmt_fixed 0 (sum_list (map (num_key ''clicks'')
                                        (take 5000 (sort_data E all ''date'' False))))))
         \<and> json_member j ''total_conversions''
           = Some (JStr (fmt_fixed 0 (sum_list (map (num_key ''conversions'')
                                        (take 5000 (sort_data E all ''date'' False))))))
         \<and> json_member j ''total_impressions''
           = Some (JStr (fmt_fixed 0 (sum_list (map (num_key ''impressions'')
                                        (take 5000 (sort_data E all ''date'' False))))))
         \<and> (5000 < length all
              \<longrightarrow> json_member j ''note''
                  = Some (JStr ''Calculado com amostra de 5000 registros''))
         \<and> json_member j ''error'' = None)
       \<and> sorted (map date_key (sort_data E all ''date'' False))
       \<and> length (take 5000 (sort_data E all ''date'' False)) = min 5000 (length all)
       \<and> set (sort_data E all ''date'' False) = set all"
proof (intro impI, elim conjE)
  assume a: "metrics_csv E = Some rows" "filtered_metrics rows start_date end_date = Inr all"
    and u: "current_user ''username'' = Some un"
  define sample where "sample = take 5000 (sort_data E all ''date'' False)"
  have l: "load_metrics_optimized E start_date end_date ''date'' False 1 5000
           = (sample, int (length all))"
    unfolding load_metrics_optimized_eq [OF a] sample_def
    using py_slice_take [of "sort_data E all ''date'' False" 5000] by simp
  have ld: "\<forall>r\<in>set sample. loaded r"
    using filtered_metrics_loaded [OF a(2)] set_take_subset
    unfolding sample_def by fastforce
  have len: "length sample = min 5000 (length all)" by (simp add: sample_def)
  have srt: "sorted (map date_key (sort_data E all ''date'' False))"
    by (simp add: sort_data_def py_sort_sorted)
  have "\<exists>j. get_basic_stats E start_date end_date current_user = Response j
         \<and> json_member j ''total_records'' = Some (JInt (int (length all)))
         \<and> json_member j ''total_clicks''
           = Some (JStr (fmt_fixed 0 (sum_list (map (num_key ''clicks'') sample))))
         \<and> json_member j ''total_conversions''
           = Some (JStr (fmt_fixed 0 (sum_list (map (num_key ''conversions'') sample))))
         \<and> json_member j ''total_impressions''
           = Some (JStr (fmt_fixed 0 (sum_list (map (num_key ''impressions'') sample))))
         \<and> (5000 < length all
              \<longrightarrow> json_member j ''note''
                  = Some (JStr ''Calculado com amostra de 5000 registros''))
         \<and> json_member j ''error'' = None"
  proof (cases "sample = []")
    case True
    then have e: "all = []" using len by (cases all) auto
    have "get_basic_stats E start_date end_date current_user = Response (JObj zero_stats)"
      by (rule get_basic_stats_empty [where current_user = current_user and un = un])
         (simp_all add: u l True)
    then show ?thesis
      using True e by (simp add: zero_stats_def fmt_fixed_zero)
  next
    case False
    have r: "get_basic_stats E start_date end_date current_user
         = Response (JObj
             [(''total_records'', JInt (int (length all))),
              (''total_clicks'',
               JStr (fmt_fixed 0 (sum_list (map (num_key ''clicks'') sample)))),
              (''total_conversions'',
               JStr (fmt_fixed 0 (sum_list (map (num_key ''conversions'') sample)))),
              (''total_impressions'',
               JStr (fmt_fixed 0 (sum_list (map (num_key ''impressions'') sample)))),
              (''note'',
               if int (length sample) < int (length all)
               then JStr (''Calculado com amostra de ''
                          @ str_int (int (length sample)) @ '' registros'')
               else JNull)])"
      by (rule get_basic_stats_sample [where current_user = current_user and un = un])
         (simp_all add: u l False ld)
    have n: "5000 < length all \<Longrightarrow> int (length sample) < int (length all)
                \<and> str_int (int (length sample)) = ''5000''"
      using len str_int_5000 by simp
    show ?thesis unfolding r using n by simp
  qed
  then show "(\<exists>j. get_basic_stats E start_date end_date current_user = Response j
         \<and> json_member j ''total_records'' = Some (JInt (int (length all)))
         \<and> json_member j ''total_clicks''
           = Some (JStr (fmt_fixed 0 (sum_list (map (num_key ''clicks'')
                                        (take 5000 (sort_data E all ''date'' False))))))
         \<and> json_member j ''total_conversions''
           = Some (JStr (fmt_fixed 0 (sum_list (map (num_key ''conversions'')
                                        (take 5000 (sort_data E all ''date'' False))))))
         \<and> json_member j ''total_impressions''
           = Some (JStr (fmt_fixed 0 (sum_list (map (num_key ''impressions'')
                                        (take 5000 (sort_data E all ''date'' False))))))
         \<and> (5000 < length all
              \<longrightarrow> json_member j ''note''
                  = Some (JStr ''Calculado com amostra de 5000 registros''))
         \<and> json_member j ''error'' = None)
       \<and> sorted (map date_key (sort_data E all ''date'' False))
       \<and> length (take 5000 (sort_data E all ''date'' False)) = min 5000 (length all)
       \<and> set (sort_data E all ''date'' False) = set all"
    using srt len unfolding sample_def by simp
qed

theorem stats_sample_witness:
  "\<exists>j. get_basic_stats (test_env (replicate 5001 (day_row ''2024-01-01''))) None None
          (test_user ''viewer'') = Response j
      \<and> json_member j ''total_records'' = Some (JInt 5001)
      \<and> json_member j ''total_clicks'' = Some (JStr ''0'')
      \<and> json_member j ''note'' = Some (JStr ''Calculado com amostra de 5000 registros'')"
proof -
  let ?rows = "replicate 5001 (day_row ''2024-01-01'')"
  let ?all = "replicate 5001 (day_loaded ''2024-01-01'' (2024, 1, 1))"
  let ?E = "test_env ?rows"
  have f: "filtered_metrics ?rows None None = Inr ?all"
    by (rule filtered_replicate_day) (simp add: strptime_2024_01_01)
  have e: "metrics_csv ?E = Some ?rows" by (simp add: test_env_def)
  have u: "test_user ''viewer'' ''username'' = Some (PStr ''ana'')"
    by (simp add: test_user_def)
  have z: "\<forall>r\<in>set (take 5000 (sort_data ?E ?all ''date'' False)). num_key ''clicks'' r = 0"
  proof
    fix r
    assume "r \<in> set (take 5000 (sort_data ?E ?all ''date'' False))"
    then have "r \<in> set (sort_data ?E ?all ''date'' False)" by (rule in_set_takeD)
    then have "r = day_loaded ''2024-01-01'' (2024, 1, 1)" by simp
    then show "num_key ''clicks'' r = 0"
      by (simp add: num_key_day numeric_fields_def)
  qed
  have s: "sum_list (map (num_key ''clicks'') (take 5000 (sort_data ?E ?all ''date'' False))) = 0"
    using z by (rule sum_list_zero)
  obtain j where j: "get_basic_stats ?E None None (test_user ''viewer'') = Response j"
    "json_member j ''total_records'' = Some (JInt (int (length ?all)))"
    "json_member j ''total_clicks''
       = Some (JStr (fmt_fixed 0 (sum_list (map (num_key ''clicks'')
                                    (take 5000 (sort_data ?E ?all ''date'' False))))))"
    "5000 < length ?all
       \<longrightarrow> json_member j ''note'' = Some (JStr ''Calculado com amostra de 5000 registros'')"
    using stats_sample [of ?E ?rows None None ?all "test_user ''viewer''" "PStr ''ana''"] e f u
    by blast
  have "json_member j ''total_records'' = Some (JInt 5001)" using j(2) by simp
  moreover have "json_member j ''total_clicks'' = Some (JStr ''0'')"
    using j(3) unfolding s by (simp add: fmt_fixed_zero)
  moreover have "json_member j ''note'' = Some (JStr ''Calculado com amostra de 5000 registros'')"
    using j(4) by simp
  ultimately show ?thesis using j(1) by blast
qed

section \<open>Failures in the two handlers (C8)\<close>

lemma get_basic_stats_body_no_error:
  assumes "get_basic_stats_body E start_date end_date current_user = Inr r"
  shows "json_member r ''error'' = None"
proof -
  obtain sample_data n where l:
    "load_metrics_optimized E start_date end_date ''date'' False 1 5000 = (sample_data, n)"
    by (cases "load_metrics_optimized E start_date end_date ''date'' False 1 5000") auto
  obtain un where u: "subscript current_user ''username'' = Inr un"
    using assms unfolding get_basic_stats_body_def bind_Inr_iff by blast
  show ?thesis
  proof (cases "sample_data = []")
    case True
    then have "r = JObj zero_stats"
      using assms unfolding get_basic_stats_body_def by (simp add: u l bind_def)
    then show ?thesis by (simp add: zero_stats_def)
  next
    case False
    from assms False show ?thesis
      by (auto simp: get_basic_stats_body_def u l bind_def split: sum.splits)
  qed
qed

text \<open>
  C8. Whatever exception the body of \<^verbatim>\<open>/data\<close> raises, the handler raises an
  \<^verbatim>\<open>HTTPException\<close> with status \<open>500\<close> and a detail that carries the text of the
  exception, and it raises no other HTTP error; whatever exception the body of \<^verbatim>\<open>/stats\<close>
  raises, the handler answers with an ordinary response whose aggregate fields are zeroed
  and which carries an \<^verbatim>\<open>error\<close> field with that text; \<^verbatim>\<open>/stats\<close> always answers with
  an ordinary response, which has an \<^verbatim>\<open>error\<close> field exactly when its body raised.
\<close>

theorem failure_asymmetry:
  "(get_metrics_data_body E start_date end_date sort_by sort_desc page page_size current_user
      = Inl e
    \<longrightarrow> get_metrics_data E start_date end_date sort_by sort_desc page page_size current_user
        = HTTPException 500 (''Erro interno do servidor: '' @ exc_text E e))
   \<and> (get_basic_stats_body E start_date end_date current_user = Inl e'
      \<longrightarrow> get_basic_stats E start_date end_date current_user
          = Response (JObj [(''total_records'', JInt 0), (''total_clicks'', JStr ''0''),
                            (''total_conversions'', JStr ''0''),
                            (''total_impressions'', JStr ''0''),
                            (''error'', JStr (exc_text E e'))]))
   \<and> (\<exists>j. get_basic_stats E start_date end_date current_user = Response j)
   \<and> (\<forall>c m. get_metrics_data E start_date end_date sort_by sort_desc page page_size
               current_user = HTTPException c m
          \<longrightarrow> c = 500
            \<and> (\<exists>x. get_metrics_data_body E start_date end_date sort_by sort_desc page
                      page_size current_user = Inl x
                   \<and> m = ''Erro interno do servidor: '' @ exc_text E x))
   \<and> (\<forall>j. get_basic_stats E start_date end_date current_user = Response j
          \<longrightarrow> (json_member j ''error'' \<noteq> None
               \<longleftrightarrow> (\<exists>x. get_basic_stats_body E start_date end_date current_user = Inl x)))"
proof (intro conjI impI allI)
  assume "get_metrics_data_body E start_date end_date sort_by sort_desc page page_size
            current_user = Inl e"
  then show "get_metrics_data E start_date end_date sort_by sort_desc page page_size current_user
        = HTTPException 500 (''Erro interno do servidor: '' @ exc_text E e)"
    by (simp add: get_metrics_data_def)
next
  assume "get_basic_stats_body E start_date end_date current_user = Inl e'"
  then show "get_basic_stats E start_date end_date current_user
          = Response (JObj [(''total_records'', JInt 0), (''total_clicks'', JStr ''0''),
                            (''total_conversions'', JStr ''0''),
                            (''total_impressions'', JStr ''0''),
                            (''error'', JStr (exc_text E e'))])"
    by (simp add: get_basic_stats_def zero_stats_def)
next
  show "\<exists>j. get_basic_stats E start_date end_date current_user = Response j"
    by (cases "get_basic_stats_body E start_date end_date current_user")
       (simp_all add: get_basic_stats_def)
next
  fix c m
  assume a: "get_metrics_data E start_date end_date sort_by sort_desc page page_size
               current_user = HTTPException c m"
  then show "c = 500"
    by (cases "get_metrics_data_body E start_date end_date sort_by sort_desc page page_size
                 current_user")
       (simp_all add: get_metrics_data_def)
  from a show "\<exists>x. get_metrics_data_body E start_date end_date sort_by sort_desc page
                      page_size current_user = Inl x
                   \<and> m = ''Erro interno do servidor: '' @ exc_text E x"
    by (cases "get_metrics_data_body E start_date end_date sort_by sort_desc page page_size
                 current_user")
       (simp_all add: get_metrics_data_def)
next
  fix j
  assume a: "get_basic_stats E start_date end_date current_user = Response j"
  show "json_member j ''error'' \<noteq> None
        \<longleftrightarrow> (\<exists>x. get_basic_stats_body E start_date end_date current_user = Inl x)"
  proof (cases "get_basic_stats_body E start_date end_date current_user")
    case (Inl x)
    then show ?thesis using a by (auto simp: get_basic_stats_def zero_stats_def)
  next
    case (Inr r)
    then have "j = r" using a by (simp add: get_basic_stats_def)
    moreover have "json_member r ''error'' = None"
      using Inr by (rule get_basic_stats_body_no_error)
    ultimately show ?thesis using Inr by simp
  qed
qed

theorem failure_asymmetry_witness:
  "get_metrics_data (test_env [day_row ''2024-01-01'']) None None ''date'' False 1 25 Map.empty
   = HTTPException 500 ''Erro interno do servidor: ''
   \<and> get_basic_stats (test_env [day_row ''2024-01-01'']) None None Map.empty
   = Response (JObj [(''total_records'', JInt 0), (''total_clicks'', JStr ''0''),
                     (''total_conversions'', JStr ''0''), (''total_impressions'', JStr ''0''),
                     (''error'', JStr [])])"
proof -
  let ?E = "test_env [day_row ''2024-01-01'']"
  have x: "exc_text ?E e = []" for e by (simp add: test_env_def)
  have d: "get_metrics_data_body ?E None None ''date'' False 1 25 Map.empty
           = Inl (KeyError ''username'')"
    by (simp add: get_metrics_data_body_def Let_def subscript_def bind_def)
  have s: "get_basic_stats_body ?E None None Map.empty = Inl (KeyError ''username'')"
    by (simp add: get_basic_stats_body_def subscript_def bind_def)
  note t = failure_asymmetry [of ?E None None "''date''" False 1 25 Map.empty
      "KeyError ''username''" "KeyError ''username''"]
  have a: "get_metrics_data ?E None None ''date'' False 1 25 Map.empty
           = HTTPException 500 (''Erro interno do servidor: ''
                                @ exc_text ?E (KeyError ''username''))"
    by (rule conjunct1 [OF t, rule_format, OF d])
  have b: "get_basic_stats ?E None None Map.empty
           = Response (JObj [(''total_records'', JInt 0), (''total_clicks'', JStr ''0''),
                             (''total_conversions'', JStr ''0''),
                             (''total_impressions'', JStr ''0''),
                             (''error'', JStr (exc_text ?E (KeyError ''username'')))])"
    by (rule conjunct1 [OF conjunct2 [OF t], rule_format, OF s])
  show ?thesis unfolding a b x by simp
qed

end
